theory Spec2Isabelle
  imports Main
begin

section \<open>Python values, dictionaries and exceptions\<close>

text \<open>
  The decorator of \<^verbatim>\<open>prompt_decorator.py\<close> handles dynamically typed values: keyword
  arguments of any type, objects that are looked at through \<^verbatim>\<open>hasattr\<close> and
  \<^verbatim>\<open>getattr\<close>, dictionaries returned by the chain. \<open>pyval\<close> is the fragment of
  Python's values the code can tell apart. An object carries its class (what
  \<^verbatim>\<open>isinstance\<close>, \<^verbatim>\<open>callable\<close> and \<^verbatim>\<open>inspect.iscoroutinefunction\<close> answer) and the
  attributes \<^verbatim>\<open>getattr\<close> finds. Objects are truthy: the classes met here define
  neither \<^verbatim>\<open>__bool__\<close> nor \<^verbatim>\<open>__len__\<close>.
\<close>

datatype pyclass = Instance | BaseTool | Function | Coroutine | StreamingContextCallback

datatype pyval =
    PNone
  | PBool bool
  | PInt int
  | PStr string
  | PList "pyval list"
  | PDict "(string \<times> pyval) list"
  | PObj pyclass "(string \<times> pyval) list"

type_synonym dict = "(string \<times> pyval) list"

text \<open>Truth value testing, as \<^verbatim>\<open>if x:\<close> does it.\<close>

fun truthy :: "pyval \<Rightarrow> bool" where
  "truthy PNone = False"
| "truthy (PBool b) = b"
| "truthy (PInt i) = (i \<noteq> 0)"
| "truthy (PStr s) = (s \<noteq> [])"
| "truthy (PList xs) = (xs \<noteq> [])"
| "truthy (PDict d) = (d \<noteq> [])"
| "truthy (PObj c attrs) = True"

text \<open>\<^verbatim>\<open>a or b\<close>\<close>

definition py_or :: "pyval \<Rightarrow> pyval \<Rightarrow> pyval" where
  "py_or a b = (if truthy a then a else b)"

text \<open>\<^verbatim>\<open>isinstance(x, bool)\<close>\<close>

fun is_bool :: "pyval \<Rightarrow> bool" where
  "is_bool (PBool b) = True"
| "is_bool v = False"

text \<open>\<^verbatim>\<open>hasattr(x, "__dict__")\<close>: true of objects, false of the builtin values.\<close>

fun has_dict :: "pyval \<Rightarrow> bool" where
  "has_dict (PObj c attrs) = True"
| "has_dict v = False"

text \<open>\<^verbatim>\<open>getattr(x, key, missing)\<close>; \<open>None\<close> stands for the \<^verbatim>\<open>missing\<close> marker.\<close>

fun getattr :: "pyval \<Rightarrow> string \<Rightarrow> pyval option" where
  "getattr (PObj c attrs) key = map_of attrs key"
| "getattr v key = None"

text \<open>
  A Python \<^verbatim>\<open>dict\<close> keeps its keys in insertion order, and the error messages of the
  decorator list keys in that order, so a dictionary is an association list. Assigning
  to a key that is present keeps its position; a new key goes to the end.
\<close>

definition keys :: "dict \<Rightarrow> string list" where
  "keys d = map fst d"

definition has_key :: "dict \<Rightarrow> string \<Rightarrow> bool" where
  "has_key d k = (k \<in> set (keys d))"

fun dict_set :: "string \<Rightarrow> pyval \<Rightarrow> dict \<Rightarrow> dict" where
  "dict_set k v [] = [(k, v)]"
| "dict_set k v (kv # d) = (if fst kv = k then (k, v) # d else kv # dict_set k v d)"

definition dict_del :: "string \<Rightarrow> dict \<Rightarrow> dict" where
  "dict_del k d = filter (\<lambda>kv. fst kv \<noteq> k) d"

text \<open>\<^verbatim>\<open>{**d1, **d2}\<close>\<close>

definition dict_merge :: "dict \<Rightarrow> dict \<Rightarrow> dict" where
  "dict_merge d1 d2 = fold (\<lambda>kv d. dict_set (fst kv) (snd kv) d) d2 d1"

text \<open>
  The exceptions. The first seven are the ones \<^verbatim>\<open>prompt_decorator.py\<close> raises itself,
  named by their Python class and the place; the parse errors come from the output
  parser; the rest are what Python raises on a failed attribute, key or name lookup, and
  \<open>OtherError\<close> is any other exception of a collaborator.
\<close>

datatype error =
    ValueError_capture_stream
  | Exception_positional "pyval list"
  | TypeError_unexpected "string list" "string list"
  | TypeError_missing_attr string
  | TypeError_missing "string list"
  | Exception_no_format_instructions
  | TypeError_invalid_function pyval
  | OutputParserException string
  | OutputParserExceptionWithOriginal string pyval bool
  | UnboundLocalError string
  | AttributeError string
  | KeyError string
  | TypeError string
  | OtherError string

text \<open>
  Modelled from the spec: the two classes of parse errors are declared outside
  \<^verbatim>\<open>prompt_decorator.py\<close>. The parse error that carries the original text (with the
  fields \<^verbatim>\<open>original\<close> and \<^verbatim>\<open>original_prompt_needed_on_retry\<close> that lines 269 and 280
  read) is a parse error, so \<^verbatim>\<open>except OutputParserException\<close> catches both and
  \<^verbatim>\<open>isinstance(e, OutputParserExceptionWithOriginal)\<close> tells them apart.
\<close>

fun is_OutputParserException :: "error \<Rightarrow> bool" where
  "is_OutputParserException (OutputParserException msg) = True"
| "is_OutputParserException (OutputParserExceptionWithOriginal msg original needed) = True"
| "is_OutputParserException e = False"

fun is_OutputParserExceptionWithOriginal :: "error \<Rightarrow> bool" where
  "is_OutputParserExceptionWithOriginal (OutputParserExceptionWithOriginal msg original needed) = True"
| "is_OutputParserExceptionWithOriginal e = False"

section \<open>The collaborators and the decoration-time settings\<close>

text \<open>
  The output parser, the template, the chains, the global settings and the streaming
  context are objects of the orchestration library; the decorator only calls them. Each
  is a record of what the decorator reads from it and of how it answers the calls the
  decorator makes, an answer being a value or a raised exception. Building a chain, a
  retry chain or a streaming callback, and \<^verbatim>\<open>build_llm_function\<close>, are taken not to
  raise.
\<close>

record parser =
  parse :: "pyval \<Rightarrow> error + pyval"
  get_format_instructions :: "error + pyval"
  is_functions_pydantic :: bool
  build_llm_function :: pyval

record prompt_template =
  input_variables :: "string list"
  default_values :: dict
  output_parser :: "parser option"

record prompt_type_settings =
  pt_capture_stream :: pyval
  pt_llm_selector :: pyval

text \<open>
  The variables of \<^verbatim>\<open>llm_prompt\<close> that the inner functions close over, as
  \<^verbatim>\<open>decorator\<close> finds them: \<open>cfg_prompt_type\<close> is \<open>None\<close> for a falsy
  \<^verbatim>\<open>prompt_type\<close>, and \<open>cfg_is_async\<close> is
  \<^verbatim>\<open>inspect.iscoroutinefunction(func)\<close>.
\<close>

record config =
  cfg_prompt_type :: "prompt_type_settings option"
  cfg_capture_stream :: pyval
  cfg_llm :: pyval
  cfg_format_instructions_parameter_key :: string
  cfg_retry_on_output_parsing_error :: bool
  cfg_stop_tokens :: pyval
  cfg_expected_gen_tokens :: pyval
  cfg_llm_selector_rule_key :: pyval
  cfg_verbose :: pyval
  cfg_is_async :: bool

datatype chain_class = LLMDecoratorChain | LLMDecoratorChainWithFunctionSupport

record chain =
  ch_class :: chain_class
  ch_llm :: pyval
  ch_prompt :: prompt_template
  ch_memory :: pyval
  ch_functions :: pyval
  ch_llm_selector :: pyval
  ch_capture_stream :: pyval
  ch_expected_gen_tokens :: pyval
  ch_llm_selector_rule_key :: pyval

record call_args =
  inputs :: dict
  return_only_outputs :: bool
  callbacks :: pyval

text \<open>
  The world around one call: the global settings, whether a streaming context is
  active, the template \<^verbatim>\<open>PromptDecoratorTemplate.from_func\<close> builds for the decorated
  function, and the answers of the chain (\<^verbatim>\<open>llmChain(**chain_args)\<close>,
  \<^verbatim>\<open>await llmChain.acall(**chain_args)\<close>), of \<^verbatim>\<open>llmChain.prompt.format\<close> and of the
  retry chain (\<^verbatim>\<open>predict\<close>, \<^verbatim>\<open>apredict\<close>).
\<close>

record env =
  gs_llm_selector :: pyval
  gs_default_llm :: pyval
  gs_default_streaming_llm :: pyval
  streaming_context :: bool
  from_func :: "error + prompt_template"
  chain_call :: "chain \<Rightarrow> call_args \<Rightarrow> error + dict"
  chain_acall :: "chain \<Rightarrow> call_args \<Rightarrow> error + dict"
  output_key :: string
  prompt_format :: "chain \<Rightarrow> call_args \<Rightarrow> error + pyval"
  predict :: "pyval \<Rightarrow> dict \<Rightarrow> error + pyval"
  apredict :: "pyval \<Rightarrow> dict \<Rightarrow> error + pyval"

section \<open>Runs: the calls made to the collaborators, and the outcome\<close>

text \<open>
  What a call of the decorated function does to its collaborators is recorded as a list
  of events, next to its outcome. Console logging is left out.
\<close>

datatype event =
    CreateChain chain_class
  | ChainCall call_args
  | Parse pyval
  | FormatPrompt
  | CreateRetryChain pyval
  | GetFormatInstructions
  | Predict dict

type_synonym 'a run = "event list \<times> (error + 'a)"

text \<open>Steps that make no call: the first exception ends the sequence.\<close>

definition seq :: "error + 'a \<Rightarrow> ('a \<Rightarrow> error + 'b) \<Rightarrow> error + 'b" where
  "seq r f = (case r of Inl e \<Rightarrow> Inl e | Inr a \<Rightarrow> f a)"

definition ok :: "'a \<Rightarrow> 'a run" where
  "ok a = ([], Inr a)"

definition fail :: "error \<Rightarrow> 'a run" where
  "fail e = ([], Inl e)"

definition lift :: "error + 'a \<Rightarrow> 'a run" where
  "lift r = ([], r)"

definition call :: "event \<Rightarrow> error + 'a \<Rightarrow> 'a run" where
  "call ev r = ([ev], r)"

definition and_then :: "'a run \<Rightarrow> ('a \<Rightarrow> 'b run) \<Rightarrow> 'b run" where
  "and_then m f =
     (case snd m of
        Inl e \<Rightarrow> (fst m, Inl e)
      | Inr a \<Rightarrow> (fst m @ fst (f a), snd (f a)))"

section \<open>Argument assembly: \<^verbatim>\<open>prepare_call_args\<close>\<close>

text \<open>
  \<^verbatim>\<open>_capture_stream\<close>, lines 121 to 127: the setting as declared, which a function
  that is not a coroutine function then loses.
\<close>

definition declared_capture_stream :: "config \<Rightarrow> pyval" where
  "declared_capture_stream cfg =
     (case cfg_prompt_type cfg of
        Some pt \<Rightarrow>
          if cfg_capture_stream cfg = PNone then pt_capture_stream pt
          else cfg_capture_stream cfg
      | None \<Rightarrow> cfg_capture_stream cfg)"

definition decor_capture_stream :: "config \<Rightarrow> pyval" where
  "decor_capture_stream cfg =
     (if truthy (declared_capture_stream cfg) \<and> \<not> cfg_is_async cfg then PBool False
      else declared_capture_stream cfg)"

text \<open>Lines 136 to 146: the \<^verbatim>\<open>capture_stream\<close> keyword.\<close>

definition take_capture_stream :: "env \<Rightarrow> config \<Rightarrow> dict \<Rightarrow> error + (pyval \<times> dict)" where
  "take_capture_stream env cfg kwargs =
     (let capture_stream = decor_capture_stream cfg in
      case (case map_of kwargs ''capture_stream'' of
              Some v \<Rightarrow>
                if \<not> is_bool capture_stream then Inl ValueError_capture_stream
                else Inr (v, dict_del ''capture_stream'' kwargs)
            | None \<Rightarrow> Inr (capture_stream, kwargs)) of
        Inl e \<Rightarrow> Inl e
      | Inr (capture_stream, kwargs) \<Rightarrow>
          Inr (if truthy capture_stream \<and> \<not> streaming_context env then PBool False
               else capture_stream, kwargs))"

text \<open>
  Lines 149 to 178: the model, the selector and the selector's rule key. The local
  variable \<^verbatim>\<open>llm_selector_rule_key\<close> is assigned only where no model was fixed at
  decoration; \<open>None\<close> is the unbound variable.
\<close>

definition select_llm ::
  "env \<Rightarrow> config \<Rightarrow> pyval \<Rightarrow> dict \<Rightarrow> pyval \<times> pyval \<times> pyval option \<times> dict" where
  "select_llm env cfg capture_stream kwargs =
     (if \<not> truthy (cfg_llm cfg) then
        (let llm_selector =
               (case cfg_prompt_type cfg of
                  Some pt \<Rightarrow>
                    if truthy (pt_llm_selector pt) then pt_llm_selector pt
                    else gs_llm_selector env
                | None \<Rightarrow> gs_llm_selector env);
             prompt_llm =
               (if truthy capture_stream \<and> \<not> truthy llm_selector
                then py_or (gs_default_streaming_llm env) (gs_default_llm env)
                else gs_default_llm env)
         in case map_of kwargs ''llm_selector_rule_key'' of
              Some v \<Rightarrow>
                if truthy v
                then (prompt_llm, llm_selector, Some v, dict_del ''llm_selector_rule_key'' kwargs)
                else (prompt_llm, llm_selector, Some (cfg_llm_selector_rule_key cfg), kwargs)
            | None \<Rightarrow> (prompt_llm, llm_selector, Some (cfg_llm_selector_rule_key cfg), kwargs))
      else (cfg_llm cfg, PNone, None, kwargs))"

text \<open>Lines 181 to 187: the positional arguments.\<close>

definition input_variables_source :: "pyval list \<Rightarrow> error + pyval option" where
  "input_variables_source args =
     (if length args = 1 \<and> has_dict (hd args) then Inr (Some (hd args))
      else if length args > 1 then Inl (Exception_positional args)
      else Inr None)"

text \<open>Lines 198 and 199: the template's default values.\<close>

definition apply_defaults :: "prompt_template \<Rightarrow> dict \<Rightarrow> dict" where
  "apply_defaults prompt_template kwargs =
     (if default_values prompt_template \<noteq> [] then dict_merge (default_values prompt_template) kwargs
      else kwargs)"

text \<open>Lines 201 to 207: \<^verbatim>\<open>callbacks\<close>; \<^verbatim>\<open>append\<close> exists on lists only.\<close>

definition take_callbacks :: "pyval \<Rightarrow> dict \<Rightarrow> error + (pyval \<times> dict)" where
  "take_callbacks capture_stream kwargs =
     (case (case map_of kwargs ''callbacks'' of
              Some v \<Rightarrow> (v, dict_del ''callbacks'' kwargs)
            | None \<Rightarrow> (PList [], kwargs)) of
        (cbs, kwargs) \<Rightarrow>
          if truthy capture_stream then
            (case cbs of
               PList hs \<Rightarrow> Inr (PList (hs @ [PObj StreamingContextCallback []]), kwargs)
             | _ \<Rightarrow> Inl (AttributeError ''append''))
          else Inr (cbs, kwargs))"

text \<open>Lines 210 to 218: \<^verbatim>\<open>kwargs.pop(name)\<close> if the name is there, else \<^verbatim>\<open>None\<close>.\<close>

definition pop_or_None :: "string \<Rightarrow> dict \<Rightarrow> pyval \<times> dict" where
  "pop_or_None name kwargs =
     (case map_of kwargs name of
        Some v \<Rightarrow> (v, dict_del name kwargs)
      | None \<Rightarrow> (PNone, kwargs))"

text \<open>
  Lines 221 to 228: the chain. Python evaluates the arguments of the constructor first,
  and reading the unbound \<^verbatim>\<open>llm_selector_rule_key\<close> raises.
\<close>

definition is_functions_parser :: "prompt_template \<Rightarrow> bool" where
  "is_functions_parser prompt_template =
     (case output_parser prompt_template of Some p \<Rightarrow> is_functions_pydantic p | None \<Rightarrow> False)"

definition new_chain ::
  "config \<Rightarrow> chain_class \<Rightarrow> pyval \<Rightarrow> prompt_template \<Rightarrow> pyval \<Rightarrow> pyval \<Rightarrow> pyval \<Rightarrow> pyval \<Rightarrow>
   pyval option \<Rightarrow> chain run" where
  "new_chain cfg cls prompt_llm prompt_template memory functions llm_selector capture_stream rule_key =
     (case rule_key of
        None \<Rightarrow> fail (UnboundLocalError ''llm_selector_rule_key'')
      | Some rk \<Rightarrow>
          call (CreateChain cls)
            (Inr \<lparr>ch_class = cls, ch_llm = prompt_llm, ch_prompt = prompt_template,
                 ch_memory = memory, ch_functions = functions, ch_llm_selector = llm_selector,
                 ch_capture_stream = capture_stream,
                 ch_expected_gen_tokens = cfg_expected_gen_tokens cfg,
                 ch_llm_selector_rule_key = rk\<rparr>))"

definition create_chain ::
  "config \<Rightarrow> pyval \<Rightarrow> prompt_template \<Rightarrow> pyval \<Rightarrow> pyval \<Rightarrow> pyval \<Rightarrow> pyval \<Rightarrow> pyval option \<Rightarrow>
   dict \<Rightarrow> (chain \<times> dict) run" where
  "create_chain cfg prompt_llm prompt_template memory functions llm_selector capture_stream rule_key kwargs =
     (if truthy functions then
        and_then (new_chain cfg LLMDecoratorChainWithFunctionSupport prompt_llm prompt_template
                    memory functions llm_selector capture_stream rule_key)
          (\<lambda>llmChain. ok (llmChain, kwargs))
      else if is_functions_parser prompt_template then
        (let function = (case output_parser prompt_template of
                           Some p \<Rightarrow> build_llm_function p | None \<Rightarrow> PNone);
             kwargs = dict_set ''function_call'' function kwargs
         in and_then (new_chain cfg LLMDecoratorChainWithFunctionSupport prompt_llm prompt_template
                        memory (PList [function]) llm_selector capture_stream rule_key)
              (\<lambda>llmChain. ok (llmChain, kwargs)))
      else
        and_then (new_chain cfg LLMDecoratorChain prompt_llm prompt_template
                    memory PNone llm_selector capture_stream rule_key)
          (\<lambda>llmChain. ok (llmChain, kwargs)))"

text \<open>Lines 229 to 232: keywords the template does not know.\<close>

definition other_supported_kwargs :: "string list" where
  "other_supported_kwargs = [''stop'', ''callbacks'', ''function_call'']"

definition unexpected_inputs :: "prompt_template \<Rightarrow> dict \<Rightarrow> string list" where
  "unexpected_inputs prompt_template kwargs =
     filter (\<lambda>key. key \<notin> set (input_variables prompt_template) \<and> key \<notin> set other_supported_kwargs)
       (keys kwargs)"

definition check_unexpected :: "prompt_template \<Rightarrow> dict \<Rightarrow> error + unit" where
  "check_unexpected prompt_template kwargs =
     (if unexpected_inputs prompt_template kwargs \<noteq> []
      then Inl (TypeError_unexpected (unexpected_inputs prompt_template kwargs)
                  (input_variables prompt_template))
      else Inr ())"

text \<open>
  Lines 234 to 254: inputs of the template that are still missing.
  \<^verbatim>\<open>missing_inputs.remove(key)\<close> removes the first occurrence.
\<close>

definition exempt_format_instructions :: "config \<Rightarrow> string list \<times> dict \<Rightarrow> string list \<times> dict" where
  "exempt_format_instructions cfg mk =
     (if cfg_format_instructions_parameter_key cfg \<in> set (fst mk)
      then (remove1 (cfg_format_instructions_parameter_key cfg) (fst mk),
            dict_set (cfg_format_instructions_parameter_key cfg) PNone (snd mk))
      else mk)"

definition exempt_memory_key :: "pyval \<Rightarrow> string list \<Rightarrow> error + string list" where
  "exempt_memory_key memory missing_inputs =
     (if truthy memory then
        (case getattr memory ''memory_key'' of
           None \<Rightarrow> Inl (AttributeError ''memory_key'')
         | Some (PStr key) \<Rightarrow>
             Inr (if key \<in> set missing_inputs then remove1 key missing_inputs else missing_inputs)
         | Some v \<Rightarrow> Inr missing_inputs)
      else Inr missing_inputs)"

fun fill_from_source :: "pyval \<Rightarrow> string list \<Rightarrow> dict \<Rightarrow> error + dict" where
  "fill_from_source source [] kwargs = Inr kwargs"
| "fill_from_source source (key # missing_inputs) kwargs =
     (case getattr source key of
        None \<Rightarrow> Inl (TypeError_missing_attr key)
      | Some v \<Rightarrow> fill_from_source source missing_inputs (dict_set key v kwargs))"

definition resolve_missing ::
  "config \<Rightarrow> prompt_template \<Rightarrow> pyval \<Rightarrow> pyval option \<Rightarrow> dict \<Rightarrow> error + dict" where
  "resolve_missing cfg prompt_template memory source kwargs =
     (let mk = exempt_format_instructions cfg
                 (filter (\<lambda>key. \<not> has_key kwargs key) (input_variables prompt_template), kwargs)
      in case exempt_memory_key memory (fst mk) of
           Inl e \<Rightarrow> Inl e
         | Inr missing_inputs \<Rightarrow>
             if missing_inputs \<noteq> [] then
               (case source of
                  Some obj \<Rightarrow>
                    if truthy obj then fill_from_source obj missing_inputs (snd mk)
                    else Inl (TypeError_missing missing_inputs)
                | None \<Rightarrow> Inl (TypeError_missing missing_inputs))
             else Inr (snd mk))"

text \<open>Lines 257 to 261: the stop tokens and the arguments of the chain's call.\<close>

definition make_call_args :: "config \<Rightarrow> dict \<Rightarrow> pyval \<Rightarrow> call_args" where
  "make_call_args cfg kwargs cbs =
     \<lparr>inputs = (if truthy (cfg_stop_tokens cfg) then dict_set ''stop'' (cfg_stop_tokens cfg) kwargs
                else kwargs),
      return_only_outputs = True,
      callbacks = cbs\<rparr>"

text \<open>
  The local variables of \<^verbatim>\<open>prepare_call_args\<close> that are alive at line 229, where the
  validation of the keywords starts; the template is the chain's \<open>ch_prompt\<close>.
\<close>

record frame =
  fr_chain :: chain
  fr_kwargs :: dict
  fr_callbacks :: pyval
  fr_memory :: pyval
  fr_source :: "pyval option"

text \<open>Lines 149 to 228, once the capture flag is chosen.\<close>

definition bind_chain :: "env \<Rightarrow> config \<Rightarrow> pyval list \<Rightarrow> pyval \<Rightarrow> dict \<Rightarrow> frame run" where
  "bind_chain env cfg args capture_stream kwargs0 =
     (case select_llm env cfg capture_stream kwargs0 of
        (prompt_llm, llm_selector, rule_key, kwargs1) \<Rightarrow>
     and_then (lift (input_variables_source args)) (\<lambda>source.
     and_then (lift (from_func env)) (\<lambda>prompt_template.
     and_then (lift (take_callbacks capture_stream (apply_defaults prompt_template kwargs1))) (\<lambda>(cbs, kwargs2).
       case pop_or_None ''memory'' kwargs2 of (memory, kwargs3) \<Rightarrow>
       case pop_or_None ''functions'' kwargs3 of (functions, kwargs4) \<Rightarrow>
     and_then (create_chain cfg prompt_llm prompt_template memory functions llm_selector
                 capture_stream rule_key kwargs4) (\<lambda>(llmChain, kwargs5).
       ok \<lparr>fr_chain = llmChain, fr_kwargs = kwargs5, fr_callbacks = cbs, fr_memory = memory,
           fr_source = source\<rparr>)))))"

text \<open>Lines 136 to 228: everything before the validation.\<close>

definition gather :: "env \<Rightarrow> config \<Rightarrow> pyval list \<Rightarrow> dict \<Rightarrow> frame run" where
  "gather env cfg args kwargs =
     and_then (lift (take_capture_stream env cfg kwargs)) (\<lambda>(capture_stream, kwargs0).
       bind_chain env cfg args capture_stream kwargs0)"

text \<open>Lines 229 to 261: the validation and the arguments of the chain's call.\<close>

definition validate :: "config \<Rightarrow> frame \<Rightarrow> error + (chain \<times> call_args)" where
  "validate cfg fr =
     seq (check_unexpected (ch_prompt (fr_chain fr)) (fr_kwargs fr)) (\<lambda>_.
     seq (resolve_missing cfg (ch_prompt (fr_chain fr)) (fr_memory fr) (fr_source fr) (fr_kwargs fr))
       (\<lambda>kwargs. Inr (fr_chain fr, make_call_args cfg kwargs (fr_callbacks fr))))"

definition prepare_call_args ::
  "env \<Rightarrow> config \<Rightarrow> pyval list \<Rightarrow> dict \<Rightarrow> (chain \<times> call_args) run" where
  "prepare_call_args env cfg args kwargs =
     and_then (gather env cfg args kwargs) (\<lambda>fr. lift (validate cfg fr))"

section \<open>Parsing, retry and packaging\<close>

text \<open>\<^verbatim>\<open>x[key]\<close> with a string key, \<^verbatim>\<open>d.get(key)\<close> and \<^verbatim>\<open>d.pop(key)\<close>.\<close>

fun subscript :: "pyval \<Rightarrow> string \<Rightarrow> error + pyval" where
  "subscript (PDict d) key = (case map_of d key of Some v \<Rightarrow> Inr v | None \<Rightarrow> Inl (KeyError key))"
| "subscript v key = Inl (TypeError ''subscript'')"

definition dict_get :: "dict \<Rightarrow> string \<Rightarrow> pyval" where
  "dict_get d key = (case map_of d key of Some v \<Rightarrow> v | None \<Rightarrow> PNone)"

definition dict_pop :: "string \<Rightarrow> dict \<Rightarrow> error + dict" where
  "dict_pop key d = (if has_key d key then Inr (dict_del key d) else Inl (KeyError key))"

text \<open>
  \<^verbatim>\<open>process_results\<close>, lines 283 to 295. It returns the result and the chain's
  dictionary, from which the functions parser's branch pops two keys.
\<close>

definition process_results :: "chain \<Rightarrow> dict \<Rightarrow> pyval \<Rightarrow> (pyval \<times> dict) run" where
  "process_results llmChain result_data result =
     (case output_parser (ch_prompt llmChain) of
        Some p \<Rightarrow>
          if is_functions_pydantic p then
            and_then (lift (seq (subscript (PDict result_data) ''function_call_info'')
                              (\<lambda>info. subscript info ''arguments''))) (\<lambda>arguments.
            and_then (call (Parse arguments) (parse p arguments)) (\<lambda>result.
            and_then (lift (seq (dict_pop ''function_call_info'' result_data)
                              (dict_pop ''function''))) (\<lambda>result_data.
              ok (result, result_data))))
          else if truthy result then
            and_then (call (Parse result) (parse p result)) (\<lambda>result. ok (result, result_data))
          else ok (result, result_data)
      | None \<Rightarrow> ok (result, result_data))"

text \<open>
  \<^verbatim>\<open>get_retry_parse_call_args\<close>, lines 265 to 281. \<open>get_original_prompt\<close> is the
  answer \<^verbatim>\<open>llmChain.prompt.format(**chain_args)\<close> would give; it is asked for only
  where the exception needs it. The retry chain is given by its model, its prompt being
  the fixed retry template.
\<close>

definition get_retry_parse_call_args ::
  "env \<Rightarrow> config \<Rightarrow> prompt_template \<Rightarrow> error \<Rightarrow> error + pyval \<Rightarrow> (pyval \<times> dict) run" where
  "get_retry_parse_call_args env cfg prompt_template exception get_original_prompt =
     (case exception of
        OutputParserExceptionWithOriginal msg original original_prompt_needed_on_retry \<Rightarrow>
          and_then (if original_prompt_needed_on_retry then call FormatPrompt get_original_prompt
                    else ok (PStr [])) (\<lambda>original_prompt.
          and_then (call (CreateRetryChain (py_or (cfg_llm cfg) (gs_default_llm env)))
                      (Inr (py_or (cfg_llm cfg) (gs_default_llm env)))) (\<lambda>retryChain.
          and_then (case output_parser prompt_template of
                      Some p \<Rightarrow> call GetFormatInstructions (get_format_instructions p)
                    | None \<Rightarrow> fail (AttributeError ''get_format_instructions''))
            (\<lambda>format_instructions.
               if \<not> truthy format_instructions then fail Exception_no_format_instructions
               else ok (retryChain,
                        [(''original_prompt'', original_prompt), (''original'', original),
                         (''format_instructions'', format_instructions)]))))
      | _ \<Rightarrow> fail (AttributeError ''original_prompt_needed_on_retry''))"

text \<open>\<^verbatim>\<open>prompt_template.output_parser.parse(result)\<close>\<close>

definition output_parser_parse :: "prompt_template \<Rightarrow> pyval \<Rightarrow> pyval run" where
  "output_parser_parse prompt_template result =
     (case output_parser prompt_template of
        Some p \<Rightarrow> call (Parse result) (parse p result)
      | None \<Rightarrow> fail (AttributeError ''parse''))"

text \<open>
  Modelled from the spec: the class \<^verbatim>\<open>OutputWithFunctionCall\<close> is declared outside
  \<^verbatim>\<open>prompt_decorator.py\<close>. Its fields are the keywords lines 410 to 425 pass to it, and
  a field that the constructor is not passed stays unset, which is \<open>None\<close> here. The two
  forwarding closures built for a tool are given by what they close over. The wrappers
  return a plain value or such an object.
\<close>

datatype callable_ref =
    Tool_run pyval pyval pyval pyval
  | Tool_arun pyval pyval pyval pyval
  | Plain_callable pyval

record output_with_function_call =
  fc_output :: pyval
  fc_output_text :: pyval
  fc_output_message :: pyval
  fc_function :: "callable_ref option"
  fc_function_async :: "callable_ref option"
  fc_function_name :: "pyval option"
  fc_function_args :: "pyval option"
  fc_function_arguments :: "pyval option"

datatype returned = Value pyval | OutputWithFunctionCall output_with_function_call

text \<open>
  \<^verbatim>\<open>"__arg1" in _tool_arguments and len(_tool_arguments)==1\<close>. A string that holds
  \<^verbatim>\<open>__arg1\<close> is longer than one character, so on a string the answer is no.
\<close>

fun is_single_arg_hack :: "pyval \<Rightarrow> error + bool" where
  "is_single_arg_hack (PDict d) = Inr (has_key d ''__arg1'' \<and> length d = 1)"
| "is_single_arg_hack (PList xs) = Inr (PStr ''__arg1'' \<in> set xs \<and> length xs = 1)"
| "is_single_arg_hack (PStr s) = Inr False"
| "is_single_arg_hack v = Inl (TypeError ''not iterable'')"

text \<open>Lines 383 to 408: the two callables and the tool's arguments.\<close>

definition resolve_function ::
  "pyval \<Rightarrow> pyval \<Rightarrow> pyval \<Rightarrow> pyval \<Rightarrow>
   error + (callable_ref option \<times> callable_ref option \<times> pyval)" where
  "resolve_function fn tool_arguments verbose cbs =
     (case fn of
        PObj BaseTool attrs \<Rightarrow>
          seq (is_single_arg_hack tool_arguments) (\<lambda>hack.
          seq (if hack then subscript tool_arguments ''__arg1'' else Inr tool_arguments) (\<lambda>tool_input.
            Inr (Some (Tool_run fn tool_input verbose cbs),
                 Some (Tool_arun fn tool_input verbose cbs), tool_input)))
      | PObj Coroutine attrs \<Rightarrow> Inr (None, Some (Plain_callable fn), tool_arguments)
      | PObj Function attrs \<Rightarrow> Inr (Some (Plain_callable fn), None, tool_arguments)
      | _ \<Rightarrow> Inl (TypeError_invalid_function fn))"

text \<open>\<^verbatim>\<open>_generate_output_with_function_call\<close>, lines 376 to 425.\<close>

definition generate_output_with_function_call ::
  "pyval \<Rightarrow> dict \<Rightarrow> pyval \<Rightarrow> pyval \<Rightarrow> error + output_with_function_call" where
  "generate_output_with_function_call result result_data verbose cbs =
     seq (subscript (PDict result_data) ''function'') (\<lambda>fn.
       if truthy (dict_get result_data ''function_call_info'') then
         seq (subscript (PDict result_data) ''function_call_info'') (\<lambda>info.
         seq (subscript info ''arguments'') (\<lambda>tool_arguments.
         seq (resolve_function fn tool_arguments verbose cbs) (\<lambda>(sync_function, async_function, tool_arguments).
         seq (subscript (PDict result_data) ''text'') (\<lambda>text.
         seq (subscript (PDict result_data) ''message'') (\<lambda>message.
         seq (subscript info ''name'') (\<lambda>name.
         seq (subscript info ''arguments'') (\<lambda>arguments.
           Inr \<lparr>fc_output = result, fc_output_text = text, fc_output_message = message,
                fc_function = sync_function, fc_function_async = async_function,
                fc_function_name = Some name, fc_function_args = Some arguments,
                fc_function_arguments = Some tool_arguments\<rparr>)))))))
       else
         seq (subscript (PDict result_data) ''message'') (\<lambda>message.
         seq (subscript (PDict result_data) ''text'') (\<lambda>text.
           Inr \<lparr>fc_output = result, fc_output_text = text, fc_output_message = message,
                fc_function = None, fc_function_async = None,
                fc_function_name = None, fc_function_args = None,
                fc_function_arguments = None\<rparr>)))"

section \<open>The two wrappers\<close>

text \<open>
  Lines 326 to 328 and 364 to 366: what is returned after a successful attempt.
  \<^verbatim>\<open>kwargs.get("callbacks")\<close> is the very object that line 202 took out of the copy of
  the keywords and that line 207 may have appended to, so its value is the one in the
  arguments of the chain's call.
\<close>

definition package :: "config \<Rightarrow> dict \<Rightarrow> call_args \<Rightarrow> pyval \<times> dict \<Rightarrow> returned run" where
  "package cfg kwargs chain_args rd =
     (if has_key (snd rd) ''function_call_info'' then
        lift (seq (generate_output_with_function_call (fst rd) (snd rd) (cfg_verbose cfg)
                     (if has_key kwargs ''callbacks'' then callbacks chain_args else PNone))
                (\<lambda>out. Inr (OutputWithFunctionCall out)))
      else ok (Value (fst rd)))"

text \<open>
  The body of \<^verbatim>\<open>try\<close>, lines 306 to 310 and 345 to 348, given the way the chain is
  run: \<^verbatim>\<open>llmChain(**chain_args)\<close> in \<^verbatim>\<open>wrapper\<close>,
  \<^verbatim>\<open>await llmChain.acall(**chain_args)\<close> in \<^verbatim>\<open>async_wrapper\<close>.
\<close>

definition try_block ::
  "(chain \<Rightarrow> call_args \<Rightarrow> error + dict) \<Rightarrow> env \<Rightarrow> chain \<Rightarrow> call_args \<Rightarrow> (pyval \<times> dict) run" where
  "try_block run_chain env llmChain chain_args =
     and_then (call (ChainCall chain_args) (run_chain llmChain chain_args)) (\<lambda>result_data.
     and_then (lift (subscript (PDict result_data) (output_key env))) (\<lambda>result.
       process_results llmChain result_data result))"

text \<open>
  \<^verbatim>\<open>wrapper\<close>, lines 299 to 328. The \<^verbatim>\<open>try\<close> block is run first; its events stay
  whatever its outcome, and the \<^verbatim>\<open>except\<close> clause looks at the exception.
\<close>

definition wrapper :: "env \<Rightarrow> config \<Rightarrow> pyval list \<Rightarrow> dict \<Rightarrow> returned run" where
  "wrapper env cfg args kwargs =
     and_then (prepare_call_args env cfg args kwargs) (\<lambda>(llmChain, chain_args).
       let attempt = try_block (chain_call env) env llmChain chain_args
       in case snd attempt of
            Inl e \<Rightarrow>
              if is_OutputParserException e then
                if cfg_retry_on_output_parsing_error cfg \<and> is_OutputParserExceptionWithOriginal e then
                  and_then (fst attempt, Inr ()) (\<lambda>_.
                  and_then (get_retry_parse_call_args env cfg (ch_prompt llmChain) e
                              (prompt_format env llmChain chain_args)) (\<lambda>(retryChain, call_kwargs).
                  and_then (call (Predict call_kwargs) (predict env retryChain call_kwargs)) (\<lambda>result.
                  and_then (output_parser_parse (ch_prompt llmChain) result) (\<lambda>parsed.
                    ok (Value parsed)))))
                else (fst attempt, Inl e)
              else (fst attempt, Inl e)
          | Inr rd \<Rightarrow> and_then (fst attempt, Inr ()) (\<lambda>_. package cfg kwargs chain_args rd))"

text \<open>\<^verbatim>\<open>async_wrapper\<close>, lines 337 to 366.\<close>

definition async_wrapper :: "env \<Rightarrow> config \<Rightarrow> pyval list \<Rightarrow> dict \<Rightarrow> returned run" where
  "async_wrapper env cfg args kwargs =
     and_then (prepare_call_args env cfg args kwargs) (\<lambda>(llmChain, chain_args).
       let attempt = try_block (chain_acall env) env llmChain chain_args
       in case snd attempt of
            Inl e \<Rightarrow>
              if is_OutputParserException e then
                if cfg_retry_on_output_parsing_error cfg \<and> is_OutputParserExceptionWithOriginal e then
                  and_then (fst attempt, Inr ()) (\<lambda>_.
                  and_then (get_retry_parse_call_args env cfg (ch_prompt llmChain) e
                              (prompt_format env llmChain chain_args)) (\<lambda>(retryChain, call_kwargs).
                  and_then (call (Predict call_kwargs) (apredict env retryChain call_kwargs)) (\<lambda>result.
                  and_then (output_parser_parse (ch_prompt llmChain) result) (\<lambda>parsed.
                    ok (Value parsed)))))
                else (fst attempt, Inl e)
              else (fst attempt, Inl e)
          | Inr rd \<Rightarrow> and_then (fst attempt, Inr ()) (\<lambda>_. package cfg kwargs chain_args rd))"

text \<open>
  Lines 297 and 335: \<^verbatim>\<open>decorator\<close> returns \<^verbatim>\<open>wrapper\<close> for a plain function and
  \<^verbatim>\<open>async_wrapper\<close> for a coroutine function.
\<close>

definition decorator :: "env \<Rightarrow> config \<Rightarrow> pyval list \<Rightarrow> dict \<Rightarrow> returned run" where
  "decorator env cfg =
     (if \<not> cfg_is_async cfg then wrapper env cfg else async_wrapper env cfg)"

text \<open>
  The calls that belong to the recovery from a parse error: formatting the original
  prompt, building the retry chain, asking the parser for its format instructions and
  the completion of the retry chain.
\<close>

fun is_recovery_event :: "event \<Rightarrow> bool" where
  "is_recovery_event FormatPrompt = True"
| "is_recovery_event (CreateRetryChain m) = True"
| "is_recovery_event GetFormatInstructions = True"
| "is_recovery_event (Predict kw) = True"
| "is_recovery_event ev = False"

fun is_Predict :: "event \<Rightarrow> bool" where
  "is_Predict (Predict kw) = True"
| "is_Predict ev = False"

section \<open>A decorated function and its collaborators, for the concrete cases\<close>

text \<open>
  A parser of yes and no that raises the parse error with the original text, a template
  with the one input \<open>topic\<close>, a chain that answers \<open>maybe\<close> and a retry chain that
  answers \<open>Yes\<close>; the settings are the defaults of \<^verbatim>\<open>llm_prompt\<close>, with no prompt type.
\<close>

definition boolean_parser :: parser where
  "boolean_parser =
     \<lparr>parse = (\<lambda>v. if v = PStr ''Yes'' then Inr (PBool True)
                    else if v = PStr ''No'' then Inr (PBool False)
                    else Inl (OutputParserExceptionWithOriginal ''not a boolean'' v False)),
      get_format_instructions = Inr (PStr ''Reply Yes or No''),
      is_functions_pydantic = False,
      build_llm_function = PNone\<rparr>"

definition topic_template :: prompt_template where
  "topic_template =
     \<lparr>input_variables = [''topic''], default_values = [], output_parser = Some boolean_parser\<rparr>"

definition default_llm :: pyval where
  "default_llm = PObj Instance [(''model_name'', PStr ''default'')]"

definition stub_env :: env where
  "stub_env =
     \<lparr>gs_llm_selector = PNone,
      gs_default_llm = default_llm,
      gs_default_streaming_llm = PNone,
      streaming_context = False,
      from_func = Inr topic_template,
      chain_call = (\<lambda>c a. Inr [(''text'', PStr ''maybe'')]),
      chain_acall = (\<lambda>c a. Inr [(''text'', PStr ''maybe'')]),
      output_key = ''text'',
      prompt_format = (\<lambda>c a. Inr (PStr ''Is this about cats?'')),
      predict = (\<lambda>m kw. Inr (PStr ''Yes'')),
      apredict = (\<lambda>m kw. Inr (PStr ''Yes''))\<rparr>"

definition default_cfg :: config where
  "default_cfg =
     \<lparr>cfg_prompt_type = None,
      cfg_capture_stream = PNone,
      cfg_llm = PNone,
      cfg_format_instructions_parameter_key = ''FORMAT_INSTRUCTIONS'',
      cfg_retry_on_output_parsing_error = True,
      cfg_stop_tokens = PNone,
      cfg_expected_gen_tokens = PNone,
      cfg_llm_selector_rule_key = PNone,
      cfg_verbose = PBool False,
      cfg_is_async = False\<rparr>"

definition cats :: dict where
  "cats = [(''topic'', PStr ''cats'')]"

text \<open>
  For the function calls: a functions parser that builds an object from the arguments of
  the call, and a chain whose answer holds the payload of a function call.
\<close>

definition functions_parser :: parser where
  "functions_parser =
     \<lparr>parse = (\<lambda>v. case v of PDict d \<Rightarrow> Inr (PObj Instance d)
                             | _ \<Rightarrow> Inl (OutputParserException ''no arguments'')),
      get_format_instructions = Inr (PStr []),
      is_functions_pydantic = True,
      build_llm_function = PDict [(''name'', PStr ''Answer'')]\<rparr>"

definition function_call_data :: dict where
  "function_call_data =
     [(''text'', PStr ''Yes''),
      (''message'', PStr ''AIMessage''),
      (''function'', PObj Function [(''name'', PStr ''Answer'')]),
      (''function_call_info'',
         PDict [(''name'', PStr ''Answer''), (''arguments'', PDict [(''answer'', PInt 42)])])]"

definition function_call_env :: "parser \<Rightarrow> env" where
  "function_call_env p =
     stub_env\<lparr>from_func := Inr (topic_template\<lparr>output_parser := Some p\<rparr>),
              chain_call := (\<lambda>c a. Inr function_call_data),
              chain_acall := (\<lambda>c a. Inr function_call_data)\<rparr>"

section \<open>Properties of runs\<close>

lemma and_then_Inl: "and_then (t, Inl e) f = (t, Inl e)"
  by (simp add: and_then_def)

lemma and_then_Inr: "and_then (t, Inr a) f = (t @ fst (f a), snd (f a))"
  by (simp add: and_then_def)

lemma and_then_lift_Inr: "and_then (lift (Inr a)) f = f a"
  by (simp add: and_then_def lift_def)

lemma and_then_lift_Inl: "and_then (lift (Inl e)) f = ([], Inl e)"
  by (simp add: and_then_def lift_def)

lemma and_then_ok: "and_then (ok a) f = f a"
  by (simp add: and_then_def ok_def)

lemma and_then_fail: "and_then (fail e) f = ([], Inl e)"
  by (simp add: and_then_def fail_def)

lemma and_then_call_Inr: "and_then (call ev (Inr a)) f = (ev # fst (f a), snd (f a))"
  by (simp add: and_then_def call_def)

lemma and_then_call_Inl: "and_then (call ev (Inl e)) f = ([ev], Inl e)"
  by (simp add: and_then_def call_def)

lemmas run_simps = and_then_Inl and_then_Inr and_then_lift_Inr and_then_lift_Inl and_then_ok
  and_then_fail and_then_call_Inr and_then_call_Inl

lemma fst_and_then:
  "fst (and_then m f) = (case snd m of Inl e \<Rightarrow> fst m | Inr a \<Rightarrow> fst m @ fst (f a))"
  by (simp add: and_then_def split: sum.splits)

lemma list_all_and_then:
  assumes "list_all P (fst m)" and "\<And>a. snd m = Inr a \<Longrightarrow> list_all P (fst (f a))"
  shows "list_all P (fst (and_then m f))"
  using assms by (simp add: fst_and_then split: sum.splits)

lemma fst_lift: "fst (lift r) = []"
  by (simp add: lift_def)

lemma fst_ok: "fst (ok a) = []"
  by (simp add: ok_def)

lemma fst_fail: "fst (fail e) = []"
  by (simp add: fail_def)

lemma has_key_map_of: "has_key d k \<longleftrightarrow> map_of d k \<noteq> None"
  by (simp add: has_key_def keys_def map_of_eq_None_iff)

section \<open>The events of each part\<close>

text \<open>Argument assembly and the first attempt make no call of the recovery.\<close>

lemma new_chain_events:
  "list_all (\<lambda>ev. \<not> is_recovery_event ev) (fst (new_chain cfg cls m tpl mem fns sel cs rk))"
  by (simp add: new_chain_def fail_def call_def split: option.splits)

lemma create_chain_events:
  "list_all (\<lambda>ev. \<not> is_recovery_event ev) (fst (create_chain cfg m tpl mem fns sel cs rk kw))"
  unfolding create_chain_def Let_def
  by (auto intro!: list_all_and_then new_chain_events simp: fst_ok)

lemma bind_chain_events:
  "list_all (\<lambda>ev. \<not> is_recovery_event ev) (fst (bind_chain env cfg args cs kw))"
  unfolding bind_chain_def
  by (auto intro!: list_all_and_then create_chain_events simp: fst_ok fst_lift split: prod.splits)

lemma gather_events:
  "list_all (\<lambda>ev. \<not> is_recovery_event ev) (fst (gather env cfg args kw))"
  unfolding gather_def
  by (auto intro!: list_all_and_then bind_chain_events simp: fst_lift split: prod.splits)

lemma prepare_call_args_events:
  "list_all (\<lambda>ev. \<not> is_recovery_event ev) (fst (prepare_call_args env cfg args kw))"
  unfolding prepare_call_args_def
  by (auto intro!: list_all_and_then gather_events simp: fst_lift)

lemma process_results_events:
  "list_all (\<lambda>ev. \<not> is_recovery_event ev) (fst (process_results c rd r))"
  unfolding process_results_def
  by (auto intro!: list_all_and_then simp: fst_ok fst_lift call_def split: option.splits)

lemma try_block_events:
  "list_all (\<lambda>ev. \<not> is_recovery_event ev) (fst (try_block run env c a))"
  unfolding try_block_def
  by (auto intro!: list_all_and_then process_results_events simp: fst_lift call_def)

lemma package_events: "fst (package cfg kwargs chain_args rd) = []"
  by (simp add: package_def fst_lift fst_ok)


lemma no_recovery_no_Predict:
  "list_all (\<lambda>ev. \<not> is_recovery_event ev) t \<Longrightarrow> filter is_Predict t = []"
proof (induction t)
  case Nil
  then show ?case by simp
next
  case (Cons ev t)
  then show ?case by (cases ev) simp_all
qed

lemma no_recovery_list_ex:
  "list_all (\<lambda>ev. \<not> is_recovery_event ev) t \<Longrightarrow> \<not> list_ex is_recovery_event t"
  by (simp add: list_all_iff list_ex_iff)

section \<open>More than one positional argument\<close>

lemma gather_positional:
  assumes "2 \<le> length args"
  shows "gather env cfg args kwargs =
         ([], Inl (if has_key kwargs ''capture_stream'' \<and> \<not> is_bool (decor_capture_stream cfg)
                   then ValueError_capture_stream else Exception_positional args))"
  using assms
  by (auto simp: gather_def take_capture_stream_def bind_chain_def input_variables_source_def
      has_key_map_of run_simps Let_def split: option.splits prod.splits)

text \<open>
  Claim C9. A call with two or more positional arguments fails, whatever the arguments
  are, and no event is recorded: no chain was created or run. The exception is the one
  of line 187, unless the \<^verbatim>\<open>capture_stream\<close> keyword has already failed its check at
  line 140; the specification calls both \<open>InvalidArguments\<close>. This holds of
  \<^verbatim>\<open>wrapper\<close> and of \<^verbatim>\<open>async_wrapper\<close>.
\<close>

theorem positional_arguments_rejected:
  assumes "2 \<le> length args"
  shows "decorator env cfg args kwargs =
           ([], Inl (if has_key kwargs ''capture_stream'' \<and> \<not> is_bool (decor_capture_stream cfg)
                     then ValueError_capture_stream else Exception_positional args))"
  using gather_positional [OF assms, of env cfg kwargs]
  by (simp add: decorator_def wrapper_def async_wrapper_def prepare_call_args_def run_simps)

text \<open>Two integers as positional arguments.\<close>

theorem positional_arguments_rejected_witness:
  "decorator stub_env default_cfg [PInt 1, PInt 2] cats =
     ([], Inl (Exception_positional [PInt 1, PInt 2]))"
  using positional_arguments_rejected [of "[PInt 1, PInt 2]" stub_env default_cfg cats]
  by (simp add: has_key_def keys_def cats_def)

section \<open>A falsy output is not parsed\<close>

text \<open>
  Claim C10. With an output parser that is not the functions parser,
  \<^verbatim>\<open>process_results\<close> calls the parser on a truthy output only; a falsy output, the
  empty string for one, is returned as it is and the parser is not called.
\<close>

theorem falsy_output_not_parsed:
  assumes "output_parser (ch_prompt llmChain) = Some p" and "\<not> is_functions_pydantic p"
  shows "process_results llmChain result_data result =
           (if truthy result
            then ([Parse result],
                  case parse p result of Inl e \<Rightarrow> Inl e | Inr v \<Rightarrow> Inr (v, result_data))
            else ([], Inr (result, result_data)))"
  using assms
  by (simp add: process_results_def and_then_def call_def ok_def split: sum.splits)

text \<open>The empty string, with the parser of yes and no.\<close>

theorem falsy_output_not_parsed_witness:
  "process_results
     \<lparr>ch_class = LLMDecoratorChain, ch_llm = default_llm, ch_prompt = topic_template,
      ch_memory = PNone, ch_functions = PNone, ch_llm_selector = PNone,
      ch_capture_stream = PNone, ch_expected_gen_tokens = PNone,
      ch_llm_selector_rule_key = PNone\<rparr> [(''text'', PStr [])] (PStr [])
   = ([], Inr (PStr [], [(''text'', PStr [])]))"
  using falsy_output_not_parsed [of "\<lparr>ch_class = LLMDecoratorChain, ch_llm = default_llm, ch_prompt = topic_template,
      ch_memory = PNone, ch_functions = PNone, ch_llm_selector = PNone,
      ch_capture_stream = PNone, ch_expected_gen_tokens = PNone,
      ch_llm_selector_rule_key = PNone\<rparr>" boolean_parser "[(''text'', PStr [])]" "PStr []"]
  by (simp add: topic_template_def boolean_parser_def)

section \<open>Evaluation of the concrete cases\<close>

lemmas ex_defs = stub_env_def default_cfg_def topic_template_def boolean_parser_def cats_def default_llm_def
lemmas run_defs = ok_def fail_def lift_def call_def and_then_def seq_def
lemmas stage_defs = take_capture_stream_def select_llm_def input_variables_source_def apply_defaults_def
  take_callbacks_def pop_or_None_def create_chain_def new_chain_def is_functions_parser_def
  check_unexpected_def unexpected_inputs_def other_supported_kwargs_def exempt_format_instructions_def
  exempt_memory_key_def resolve_missing_def make_call_args_def bind_chain_def gather_def validate_def
  prepare_call_args_def declared_capture_stream_def decor_capture_stream_def
  keys_def has_key_def dict_del_def dict_merge_def py_or_def dict_get_def dict_pop_def
lemmas wrap_defs = wrapper_def async_wrapper_def try_block_def process_results_def package_def
  get_retry_parse_call_args_def output_parser_parse_def generate_output_with_function_call_def resolve_function_def

section \<open>The check of the \<^verbatim>\<open>capture_stream\<close> keyword\<close>

text \<open>
  Claim C3. The claim says that a call passing \<^verbatim>\<open>capture_stream\<close> fails exactly when
  the value passed is not a boolean. Line 139 tests the decoration-time value instead,
  before line 141 reads the keyword. With the default settings and no prompt type the
  decoration-time value is \<^verbatim>\<open>None\<close>, and passing \<^verbatim>\<open>capture_stream=True\<close> raises the
  \<^verbatim>\<open>ValueError\<close>; with \<^verbatim>\<open>capture_stream=False\<close> at decoration, passing the string
  \<^verbatim>\<open>"yes"\<close> raises nothing and the call completes.
\<close>

theorem capture_stream_check_reads_the_decoration_value:
  "snd (wrapper stub_env default_cfg [] (cats @ [(''capture_stream'', PBool True)]))
     = Inl ValueError_capture_stream
   \<and> snd (wrapper stub_env (default_cfg\<lparr>cfg_capture_stream := PBool False\<rparr>) []
            (cats @ [(''capture_stream'', PStr ''yes'')]))
     = Inr (Value (PBool True))"
  by (simp add: run_defs stage_defs wrap_defs ex_defs)

section \<open>Which exceptions start the recovery\<close>

lemma retry_args_events:
  "list_ex is_recovery_event
     (fst (get_retry_parse_call_args env cfg tpl (OutputParserExceptionWithOriginal msg original needed) gp))"
  by (cases gp) (simp_all add: get_retry_parse_call_args_def fst_and_then call_def ok_def split: sum.splits)

lemma is_WithOriginal_cases:
  "is_OutputParserExceptionWithOriginal e \<Longrightarrow> \<exists>msg original needed. e = OutputParserExceptionWithOriginal msg original needed"
  by (cases e) simp_all

lemma WithOriginal_is_parser_exception:
  "is_OutputParserExceptionWithOriginal e \<Longrightarrow> is_OutputParserException e"
  by (cases e) simp_all

text \<open>What each wrapper does once argument assembly has succeeded.\<close>

lemma wrapper_unfold:
  assumes "prepare_call_args env cfg args kwargs = (t0, Inr (llmChain, chain_args))"
  shows "wrapper env cfg args kwargs =
     (let attempt = try_block (chain_call env) env llmChain chain_args
       in case snd attempt of
            Inl e \<Rightarrow>
              if cfg_retry_on_output_parsing_error cfg \<and> is_OutputParserExceptionWithOriginal e then
                  and_then (t0 @ fst attempt, Inr ()) (\<lambda>_.
                  and_then (get_retry_parse_call_args env cfg (ch_prompt llmChain) e
                              (prompt_format env llmChain chain_args)) (\<lambda>(retryChain, call_kwargs).
                  and_then (call (Predict call_kwargs) (predict env retryChain call_kwargs)) (\<lambda>result.
                  and_then (output_parser_parse (ch_prompt llmChain) result) (\<lambda>parsed.
                    ok (Value parsed)))))
              else (t0 @ fst attempt, Inl e)
          | Inr rd \<Rightarrow> (t0 @ fst attempt, snd (package cfg kwargs chain_args rd)))"
  using assms
  by (auto simp: wrapper_def Let_def and_then_Inr and_then_Inl package_events
      WithOriginal_is_parser_exception split: sum.splits)

lemma async_wrapper_unfold:
  assumes "prepare_call_args env cfg args kwargs = (t0, Inr (llmChain, chain_args))"
  shows "async_wrapper env cfg args kwargs =
     (let attempt = try_block (chain_acall env) env llmChain chain_args
       in case snd attempt of
            Inl e \<Rightarrow>
              if cfg_retry_on_output_parsing_error cfg \<and> is_OutputParserExceptionWithOriginal e then
                  and_then (t0 @ fst attempt, Inr ()) (\<lambda>_.
                  and_then (get_retry_parse_call_args env cfg (ch_prompt llmChain) e
                              (prompt_format env llmChain chain_args)) (\<lambda>(retryChain, call_kwargs).
                  and_then (call (Predict call_kwargs) (apredict env retryChain call_kwargs)) (\<lambda>result.
                  and_then (output_parser_parse (ch_prompt llmChain) result) (\<lambda>parsed.
                    ok (Value parsed)))))
              else (t0 @ fst attempt, Inl e)
          | Inr rd \<Rightarrow> (t0 @ fst attempt, snd (package cfg kwargs chain_args rd)))"
  using assms
  by (auto simp: async_wrapper_def Let_def and_then_Inr and_then_Inl package_events
      WithOriginal_is_parser_exception split: sum.splits)


lemma either_wrapper_unfold:
  assumes "(w = wrapper \<and> run = chain_call env \<and> complete = predict env)
           \<or> (w = async_wrapper \<and> run = chain_acall env \<and> complete = apredict env)"
      and "prepare_call_args env cfg args kwargs = (t0, Inr (llmChain, chain_args))"
  shows "w env cfg args kwargs =
     (let attempt = try_block run env llmChain chain_args
       in case snd attempt of
            Inl e \<Rightarrow>
              if cfg_retry_on_output_parsing_error cfg \<and> is_OutputParserExceptionWithOriginal e then
                  and_then (t0 @ fst attempt, Inr ()) (\<lambda>_.
                  and_then (get_retry_parse_call_args env cfg (ch_prompt llmChain) e
                              (prompt_format env llmChain chain_args)) (\<lambda>(retryChain, call_kwargs).
                  and_then (call (Predict call_kwargs) (complete retryChain call_kwargs)) (\<lambda>result.
                  and_then (output_parser_parse (ch_prompt llmChain) result) (\<lambda>parsed.
                    ok (Value parsed)))))
              else (t0 @ fst attempt, Inl e)
          | Inr rd \<Rightarrow> (t0 @ fst attempt, snd (package cfg kwargs chain_args rd)))"
  using assms(1) wrapper_unfold [OF assms(2)] async_wrapper_unfold [OF assms(2)]
  by auto

lemma either_wrapper_prepare_error:
  assumes "w = wrapper \<or> w = async_wrapper"
      and "prepare_call_args env cfg args kwargs = (t0, Inl e)"
  shows "w env cfg args kwargs = (t0, Inl e)"
  using assms by (auto simp: wrapper_def async_wrapper_def and_then_Inl)

lemma either_wrapper_propagates:
  assumes "(w = wrapper \<and> run = chain_call env \<and> complete = predict env)
           \<or> (w = async_wrapper \<and> run = chain_acall env \<and> complete = apredict env)"
      and "prepare_call_args env cfg args kwargs = (t0, Inr (llmChain, chain_args))"
      and "try_block run env llmChain chain_args = (t1, Inl e)"
      and "\<not> (cfg_retry_on_output_parsing_error cfg \<and> is_OutputParserExceptionWithOriginal e)"
  shows "w env cfg args kwargs = (t0 @ t1, Inl e)"
  using either_wrapper_unfold [OF assms(1,2)] assms(3,4) by (simp add: Let_def)

lemma either_wrapper_packages:
  assumes "(w = wrapper \<and> run = chain_call env \<and> complete = predict env)
           \<or> (w = async_wrapper \<and> run = chain_acall env \<and> complete = apredict env)"
      and "prepare_call_args env cfg args kwargs = (t0, Inr (llmChain, chain_args))"
      and "try_block run env llmChain chain_args = (t1, Inr rd)"
  shows "w env cfg args kwargs = (t0 @ t1, snd (package cfg kwargs chain_args rd))"
  using either_wrapper_unfold [OF assms(1,2)] assms(3) by (simp add: Let_def)

lemma either_wrapper_recovers:
  assumes "(w = wrapper \<and> run = chain_call env \<and> complete = predict env)
           \<or> (w = async_wrapper \<and> run = chain_acall env \<and> complete = apredict env)"
      and "prepare_call_args env cfg args kwargs = (t0, Inr (llmChain, chain_args))"
      and "try_block run env llmChain chain_args = (t1, Inl e)"
      and "cfg_retry_on_output_parsing_error cfg" and "is_OutputParserExceptionWithOriginal e"
  shows "w env cfg args kwargs =
           and_then (t0 @ t1, Inr ()) (\<lambda>_.
           and_then (get_retry_parse_call_args env cfg (ch_prompt llmChain) e
                       (prompt_format env llmChain chain_args)) (\<lambda>(retryChain, call_kwargs).
           and_then (call (Predict call_kwargs) (complete retryChain call_kwargs)) (\<lambda>result.
           and_then (output_parser_parse (ch_prompt llmChain) result) (\<lambda>parsed.
             ok (Value parsed)))))"
  using either_wrapper_unfold [OF assms(1,2)] assms(3,4,5) by (simp add: Let_def)

lemma recovery_invoked_iff:
  assumes mode: "(w = wrapper \<and> run = chain_call env \<and> complete = predict env)
           \<or> (w = async_wrapper \<and> run = chain_acall env \<and> complete = apredict env)"
  shows "list_ex is_recovery_event (fst (w env cfg args kwargs)) \<longleftrightarrow>
           (\<exists>t0 llmChain chain_args t1 e.
              prepare_call_args env cfg args kwargs = (t0, Inr (llmChain, chain_args))
              \<and> try_block run env llmChain chain_args = (t1, Inl e)
              \<and> cfg_retry_on_output_parsing_error cfg \<and> is_OutputParserExceptionWithOriginal e)"
proof (cases "prepare_call_args env cfg args kwargs")
  case (Pair t0 p)
  have quiet0: "\<not> list_ex is_recovery_event t0"
    using prepare_call_args_events [of env cfg args kwargs] Pair
    by (simp add: no_recovery_list_ex)
  show ?thesis
  proof (cases p)
    case (Inl e)
    from mode have "w = wrapper \<or> w = async_wrapper" by auto
    from either_wrapper_prepare_error [OF this] Pair Inl
    have "w env cfg args kwargs = (t0, Inl e)" by simp
    with quiet0 Pair Inl show ?thesis by simp
  next
    case (Inr ca)
    obtain llmChain chain_args where ca: "ca = (llmChain, chain_args)" by (cases ca)
    have prep: "prepare_call_args env cfg args kwargs = (t0, Inr (llmChain, chain_args))"
      using Pair Inr ca by simp
    obtain t1 r where att: "try_block run env llmChain chain_args = (t1, r)"
      by (cases "try_block run env llmChain chain_args")
    have quiet1: "\<not> list_ex is_recovery_event t1"
      using try_block_events [of run env llmChain chain_args] att
      by (simp add: no_recovery_list_ex)
    show ?thesis
    proof (cases r)
      case (Inr rd)
      from either_wrapper_packages [OF mode prep] att Inr
      have "w env cfg args kwargs = (t0 @ t1, snd (package cfg kwargs chain_args rd))" by simp
      with quiet0 quiet1 prep att Inr show ?thesis by simp
    next
      case (Inl e)
      show ?thesis
      proof (cases "cfg_retry_on_output_parsing_error cfg \<and> is_OutputParserExceptionWithOriginal e")
        case False
        from either_wrapper_propagates [OF mode prep _ False] att Inl
        have "w env cfg args kwargs = (t0 @ t1, Inl e)" by simp
        with quiet0 quiet1 prep att Inl False show ?thesis by auto
      next
        case True
        then obtain msg original needed
          where e: "e = OutputParserExceptionWithOriginal msg original needed"
          using is_WithOriginal_cases by blast
        from True either_wrapper_recovers [OF mode prep] att Inl
        have "list_ex is_recovery_event (fst (w env cfg args kwargs))"
          using retry_args_events [of env cfg "ch_prompt llmChain" msg original needed
              "prompt_format env llmChain chain_args"]
          by (simp add: e and_then_Inr fst_and_then split: sum.splits)
        with prep att Inl True show ?thesis by blast
      qed
    qed
  qed
qed

text \<open>
  Claim C1. For \<^verbatim>\<open>wrapper\<close> and for \<^verbatim>\<open>async_wrapper\<close>: a call of the recovery
  (formatting the original prompt, building the retry chain, asking for the format
  instructions, the retry completion) is made exactly when the \<^verbatim>\<open>try\<close> block raised a
  parse error with the original text and retry is enabled. An exception of argument
  assembly, any other exception of the \<^verbatim>\<open>try\<close> block (a parse error without the
  original text, any parse error when retry is disabled, any other exception) and an
  exception of the packaging reach the caller as they were raised.
\<close>

theorem retry_only_on_parse_error_with_original:
  assumes mode: "(w = wrapper \<and> run = chain_call env) \<or> (w = async_wrapper \<and> run = chain_acall env)"
  shows "(list_ex is_recovery_event (fst (w env cfg args kwargs)) \<longleftrightarrow>
           (\<exists>t0 llmChain chain_args t1 e.
              prepare_call_args env cfg args kwargs = (t0, Inr (llmChain, chain_args))
              \<and> try_block run env llmChain chain_args = (t1, Inl e)
              \<and> cfg_retry_on_output_parsing_error cfg \<and> is_OutputParserExceptionWithOriginal e))
       \<and> (\<forall>t0 e. prepare_call_args env cfg args kwargs = (t0, Inl e)
             \<longrightarrow> w env cfg args kwargs = (t0, Inl e))
       \<and> (\<forall>t0 llmChain chain_args t1 e.
             prepare_call_args env cfg args kwargs = (t0, Inr (llmChain, chain_args))
             \<and> try_block run env llmChain chain_args = (t1, Inl e)
             \<and> \<not> (cfg_retry_on_output_parsing_error cfg \<and> is_OutputParserExceptionWithOriginal e)
             \<longrightarrow> w env cfg args kwargs = (t0 @ t1, Inl e))
       \<and> (\<forall>t0 llmChain chain_args t1 rd.
             prepare_call_args env cfg args kwargs = (t0, Inr (llmChain, chain_args))
             \<and> try_block run env llmChain chain_args = (t1, Inr rd)
             \<longrightarrow> w env cfg args kwargs = (t0 @ t1, snd (package cfg kwargs chain_args rd)))"
proof -
  from mode have either: "w = wrapper \<or> w = async_wrapper" by auto
  from mode obtain complete
    where full: "(w = wrapper \<and> run = chain_call env \<and> complete = predict env)
           \<or> (w = async_wrapper \<and> run = chain_acall env \<and> complete = apredict env)"
    by auto
  show ?thesis
    using recovery_invoked_iff [OF full, of cfg args kwargs]
      either_wrapper_prepare_error [OF either, of env cfg args kwargs]
      either_wrapper_propagates [OF full, of cfg args kwargs]
      either_wrapper_packages [OF full, of cfg args kwargs]
    by blast
qed

lemma stub_prepare:
  "prepare_call_args stub_env (default_cfg\<lparr>cfg_retry_on_output_parsing_error := b\<rparr>) [] cats =
     ([CreateChain LLMDecoratorChain],
      Inr (\<lparr>ch_class = LLMDecoratorChain, ch_llm = default_llm, ch_prompt = topic_template,
            ch_memory = PNone, ch_functions = PNone, ch_llm_selector = PNone,
            ch_capture_stream = PNone, ch_expected_gen_tokens = PNone,
            ch_llm_selector_rule_key = PNone\<rparr>,
           \<lparr>inputs = cats, return_only_outputs = True, callbacks = PList []\<rparr>))"
  by (simp add: run_defs stage_defs ex_defs)

lemma stub_try_block:
  "try_block (chain_call stub_env) stub_env
     \<lparr>ch_class = LLMDecoratorChain, ch_llm = default_llm, ch_prompt = topic_template,
      ch_memory = PNone, ch_functions = PNone, ch_llm_selector = PNone,
      ch_capture_stream = PNone, ch_expected_gen_tokens = PNone,
      ch_llm_selector_rule_key = PNone\<rparr>
     \<lparr>inputs = cats, return_only_outputs = True, callbacks = PList []\<rparr> =
     ([ChainCall \<lparr>inputs = cats, return_only_outputs = True, callbacks = PList []\<rparr>,
       Parse (PStr ''maybe'')],
      Inl (OutputParserExceptionWithOriginal ''not a boolean'' (PStr ''maybe'') False))"
  by (simp add: run_defs try_block_def process_results_def ex_defs)

text \<open>
  The parser of yes and no fails on \<open>maybe\<close>: with retry disabled the parse error
  reaches the caller, with retry enabled the recovery is called.
\<close>

theorem retry_only_on_parse_error_with_original_witness:
  "wrapper stub_env (default_cfg\<lparr>cfg_retry_on_output_parsing_error := False\<rparr>) [] cats =
     ([CreateChain LLMDecoratorChain,
       ChainCall \<lparr>inputs = cats, return_only_outputs = True, callbacks = PList []\<rparr>,
       Parse (PStr ''maybe'')],
      Inl (OutputParserExceptionWithOriginal ''not a boolean'' (PStr ''maybe'') False))
   \<and> list_ex is_recovery_event (fst (wrapper stub_env default_cfg [] cats))"
proof -
  have mode: "(wrapper = wrapper \<and> chain_call stub_env = chain_call stub_env)
      \<or> (wrapper = async_wrapper \<and> chain_call stub_env = chain_acall stub_env)"
    by simp
  have off: "\<not> (cfg_retry_on_output_parsing_error (default_cfg\<lparr>cfg_retry_on_output_parsing_error := False\<rparr>)
      \<and> is_OutputParserExceptionWithOriginal (OutputParserExceptionWithOriginal ''not a boolean'' (PStr ''maybe'') False))"
    by simp
  have on: "cfg_retry_on_output_parsing_error default_cfg
      \<and> is_OutputParserExceptionWithOriginal (OutputParserExceptionWithOriginal ''not a boolean'' (PStr ''maybe'') False)"
    by (simp add: default_cfg_def)
  have same: "default_cfg\<lparr>cfg_retry_on_output_parsing_error := True\<rparr> = default_cfg"
    by (simp add: default_cfg_def)
  from retry_only_on_parse_error_with_original [OF mode,
      of "default_cfg\<lparr>cfg_retry_on_output_parsing_error := False\<rparr>" "[]" cats]
    stub_prepare [of False] stub_try_block off
  have first: "wrapper stub_env (default_cfg\<lparr>cfg_retry_on_output_parsing_error := False\<rparr>) [] cats =
     ([CreateChain LLMDecoratorChain] @
      [ChainCall \<lparr>inputs = cats, return_only_outputs = True, callbacks = PList []\<rparr>,
       Parse (PStr ''maybe'')],
      Inl (OutputParserExceptionWithOriginal ''not a boolean'' (PStr ''maybe'') False))"
    by blast
  from retry_only_on_parse_error_with_original [OF mode, of default_cfg "[]" cats]
    stub_prepare [of True] stub_try_block on same
  have second: "list_ex is_recovery_event (fst (wrapper stub_env default_cfg [] cats))"
    by metis
  from first second show ?thesis by simp
qed

section \<open>The recovery when the original prompt is not needed\<close>

lemma retry_args_no_prompt:
  assumes "output_parser tpl = Some p" and "get_format_instructions p = Inr fi"
  shows "get_retry_parse_call_args env cfg tpl (OutputParserExceptionWithOriginal msg original False) gp =
           (if truthy fi
            then ([CreateRetryChain (py_or (cfg_llm cfg) (gs_default_llm env)), GetFormatInstructions],
                  Inr (py_or (cfg_llm cfg) (gs_default_llm env),
                       [(''original_prompt'', PStr []), (''original'', original),
                        (''format_instructions'', fi)]))
            else ([CreateRetryChain (py_or (cfg_llm cfg) (gs_default_llm env)), GetFormatInstructions],
                  Inl Exception_no_format_instructions))"
  using assms
  by (simp add: get_retry_parse_call_args_def and_then_def call_def ok_def fail_def)

text \<open>
  Claim C2. The \<^verbatim>\<open>try\<close> block raised a parse error with the original text that does
  not need the original prompt, and retry is enabled. If the parser's format instructions
  are truthy, the retry chain is called once, with the empty string as
  \<^verbatim>\<open>original_prompt\<close>, and its output is parsed by the same parser: the parsed value is
  the result, and an exception of this second parse reaches the caller. If the format
  instructions are falsy, the call fails with the exception of line 279, which is not a
  parse error, before any completion.
\<close>

theorem retry_without_original_prompt:
  assumes mode: "(w = wrapper \<and> run = chain_call env \<and> complete = predict env)
           \<or> (w = async_wrapper \<and> run = chain_acall env \<and> complete = apredict env)"
      and prep: "prepare_call_args env cfg args kwargs = (t0, Inr (llmChain, chain_args))"
      and att: "try_block run env llmChain chain_args =
                  (t1, Inl (OutputParserExceptionWithOriginal msg original False))"
      and retry: "cfg_retry_on_output_parsing_error cfg"
      and parser: "output_parser (ch_prompt llmChain) = Some p"
      and instr: "get_format_instructions p = Inr format_instructions"
      and llm: "retry_llm = py_or (cfg_llm cfg) (gs_default_llm env)"
      and kw: "call_kwargs = [(''original_prompt'', PStr []), (''original'', original),
                             (''format_instructions'', format_instructions)]"
  shows "if truthy format_instructions then
           fst (w env cfg args kwargs) =
             t0 @ t1 @ [CreateRetryChain retry_llm, GetFormatInstructions, Predict call_kwargs]
                @ (case complete retry_llm call_kwargs of Inl e \<Rightarrow> [] | Inr out \<Rightarrow> [Parse out])
           \<and> length (filter is_Predict (fst (w env cfg args kwargs))) = 1
           \<and> snd (w env cfg args kwargs) =
               (case complete retry_llm call_kwargs of
                  Inl e \<Rightarrow> Inl e
                | Inr out \<Rightarrow> (case parse p out of Inl e \<Rightarrow> Inl e | Inr v \<Rightarrow> Inr (Value v)))
         else
           w env cfg args kwargs =
             (t0 @ t1 @ [CreateRetryChain retry_llm, GetFormatInstructions],
              Inl Exception_no_format_instructions)
           \<and> \<not> is_OutputParserException Exception_no_format_instructions"
proof -
  have quiet0: "filter is_Predict t0 = []"
    using prepare_call_args_events [of env cfg args kwargs] prep
    by (simp add: no_recovery_no_Predict)
  have quiet1: "filter is_Predict t1 = []"
    using try_block_events [of run env llmChain chain_args] att
    by (simp add: no_recovery_no_Predict)
  have unfold: "w env cfg args kwargs =
           and_then (t0 @ t1, Inr ()) (\<lambda>_.
           and_then (get_retry_parse_call_args env cfg (ch_prompt llmChain)
                       (OutputParserExceptionWithOriginal msg original False)
                       (prompt_format env llmChain chain_args)) (\<lambda>(retryChain, call_kwargs).
           and_then (call (Predict call_kwargs) (complete retryChain call_kwargs)) (\<lambda>result.
           and_then (output_parser_parse (ch_prompt llmChain) result) (\<lambda>parsed.
             ok (Value parsed)))))"
    using either_wrapper_recovers [OF mode prep att retry] by simp
  show ?thesis
  proof (cases "truthy format_instructions")
    case False
    then show ?thesis
      unfolding unfold retry_args_no_prompt [OF parser instr] llm kw
      by (simp add: and_then_def)
  next
    case True
    then show ?thesis
      unfolding unfold retry_args_no_prompt [OF parser instr] llm kw
      using quiet0 quiet1 parser
      by (simp add: and_then_def call_def ok_def output_parser_parse_def split: sum.splits)
  qed
qed

text \<open>The chain answers \<open>maybe\<close>, the retry chain \<open>Yes\<close>.\<close>

theorem retry_without_original_prompt_witness:
  "wrapper stub_env default_cfg [] cats =
     ([CreateChain LLMDecoratorChain,
       ChainCall \<lparr>inputs = cats, return_only_outputs = True, callbacks = PList []\<rparr>,
       Parse (PStr ''maybe''),
       CreateRetryChain default_llm, GetFormatInstructions,
       Predict [(''original_prompt'', PStr []), (''original'', PStr ''maybe''),
                (''format_instructions'', PStr ''Reply Yes or No'')],
       Parse (PStr ''Yes'')],
      Inr (Value (PBool True)))"
proof -
  have mode: "(wrapper = wrapper \<and> chain_call stub_env = chain_call stub_env
               \<and> predict stub_env = predict stub_env)
      \<or> (wrapper = async_wrapper \<and> chain_call stub_env = chain_acall stub_env
          \<and> predict stub_env = apredict stub_env)"
    by simp
  have same: "default_cfg\<lparr>cfg_retry_on_output_parsing_error := True\<rparr> = default_cfg"
    by (simp add: default_cfg_def)
  have prep: "prepare_call_args stub_env default_cfg [] cats =
     ([CreateChain LLMDecoratorChain],
      Inr (\<lparr>ch_class = LLMDecoratorChain, ch_llm = default_llm, ch_prompt = topic_template,
            ch_memory = PNone, ch_functions = PNone, ch_llm_selector = PNone,
            ch_capture_stream = PNone, ch_expected_gen_tokens = PNone,
            ch_llm_selector_rule_key = PNone\<rparr>,
           \<lparr>inputs = cats, return_only_outputs = True, callbacks = PList []\<rparr>))"
    using stub_prepare [of True] same by simp
  have retry: "cfg_retry_on_output_parsing_error default_cfg"
    by (simp add: default_cfg_def)
  have parser: "output_parser (ch_prompt \<lparr>ch_class = LLMDecoratorChain, ch_llm = default_llm, ch_prompt = topic_template,
            ch_memory = PNone, ch_functions = PNone, ch_llm_selector = PNone,
            ch_capture_stream = PNone, ch_expected_gen_tokens = PNone,
            ch_llm_selector_rule_key = PNone\<rparr>) = Some boolean_parser"
    by (simp add: topic_template_def)
  have instr: "get_format_instructions boolean_parser = Inr (PStr ''Reply Yes or No'')"
    by (simp add: boolean_parser_def)
  have llm: "default_llm = py_or (cfg_llm default_cfg) (gs_default_llm stub_env)"
    by (simp add: py_or_def default_cfg_def stub_env_def)
  from retry_without_original_prompt [OF mode prep stub_try_block retry parser instr llm refl]
  have "fst (wrapper stub_env default_cfg [] cats) =
     [CreateChain LLMDecoratorChain,
       ChainCall \<lparr>inputs = cats, return_only_outputs = True, callbacks = PList []\<rparr>,
       Parse (PStr ''maybe''),
       CreateRetryChain default_llm, GetFormatInstructions,
       Predict [(''original_prompt'', PStr []), (''original'', PStr ''maybe''),
                (''format_instructions'', PStr ''Reply Yes or No'')],
       Parse (PStr ''Yes'')]
     \<and> snd (wrapper stub_env default_cfg [] cats) = Inr (Value (PBool True))"
    by (simp add: stub_env_def boolean_parser_def)
  then show ?thesis by (simp add: prod_eq_iff)
qed

section \<open>The result of a function call\<close>

lemma truthy_dict_get_has_key: "truthy (dict_get d k) \<Longrightarrow> has_key d k"
  by (auto simp: dict_get_def has_key_map_of split: option.splits)

lemma has_key_dict_del: "has_key (dict_del k' d) k \<longleftrightarrow> has_key d k \<and> k \<noteq> k'"
  by (auto simp: has_key_def keys_def dict_del_def)

lemma seq_Inr_iff: "seq r f = Inr b \<longleftrightarrow> (\<exists>a. r = Inr a \<and> f a = Inr b)"
  by (cases r) (simp_all add: seq_def)

lemma and_then_snd_Inr_iff:
  "snd (and_then m f) = Inr b \<longleftrightarrow> (\<exists>a. snd m = Inr a \<and> snd (f a) = Inr b)"
  by (cases "snd m") (simp_all add: and_then_def)

lemma process_results_functions:
  assumes "output_parser (ch_prompt llmChain) = Some p" and "is_functions_pydantic p"
      and "snd (process_results llmChain result_data raw) = Inr (result, rd)"
  shows "\<not> has_key rd ''function_call_info''
         \<and> (\<exists>info arguments.
               subscript (PDict result_data) ''function_call_info'' = Inr info
               \<and> subscript info ''arguments'' = Inr arguments
               \<and> parse p arguments = Inr result)"
  using assms
  by (auto simp: process_results_def and_then_snd_Inr_iff lift_def call_def ok_def
      seq_Inr_iff dict_pop_def has_key_dict_del split: if_splits)

lemma process_results_plain:
  assumes "\<not> is_functions_parser (ch_prompt llmChain)"
      and "snd (process_results llmChain result_data raw) = Inr (result, rd)"
  shows "rd = result_data
         \<and> (case output_parser (ch_prompt llmChain) of
               None \<Rightarrow> result = raw
             | Some p \<Rightarrow> if truthy raw then parse p raw = Inr result else result = raw)"
  using assms
  by (auto simp: process_results_def is_functions_parser_def and_then_snd_Inr_iff lift_def call_def
      ok_def split: if_splits option.splits)

lemma try_block_success:
  assumes "run llmChain chain_args = Inr result_data"
      and "try_block run env llmChain chain_args = (t1, Inr (result, rd))"
  shows "\<exists>raw. subscript (PDict result_data) (output_key env) = Inr raw
               \<and> snd (process_results llmChain result_data raw) = Inr (result, rd)"
proof -
  from assms(2) have "snd (try_block run env llmChain chain_args) = Inr (result, rd)"
    by simp
  with assms(1) show ?thesis
    by (auto simp: try_block_def and_then_snd_Inr_iff call_def lift_def)
qed

lemma generate_with_payload:
  assumes "truthy (dict_get result_data ''function_call_info'')"
      and "generate_output_with_function_call result result_data verbose cbs = Inr out"
  shows "\<exists>info name arguments.
           subscript (PDict result_data) ''function_call_info'' = Inr info
           \<and> fc_output out = result
           \<and> subscript (PDict result_data) ''text'' = Inr (fc_output_text out)
           \<and> subscript (PDict result_data) ''message'' = Inr (fc_output_message out)
           \<and> subscript info ''name'' = Inr name \<and> fc_function_name out = Some name
           \<and> subscript info ''arguments'' = Inr arguments \<and> fc_function_args out = Some arguments"
  using assms
  by (auto simp: generate_output_with_function_call_def seq_Inr_iff)

text \<open>
  Claim C7, amended. The first attempt completed, the chain's answer holds a truthy
  \<^verbatim>\<open>function_call_info\<close>, and the call returned. With the functions parser, the value
  returned is the plain value the parser makes of the payload's arguments, and no
  \<^verbatim>\<open>OutputWithFunctionCall\<close> is built. With any other parser or none, the value
  returned is an \<^verbatim>\<open>OutputWithFunctionCall\<close> whose output is the output field's value
  (parsed, if there is a parser and the value is truthy) and whose other fields are the
  raw text, the raw message, the name and the arguments of the payload.
\<close>

theorem function_call_packaging:
  assumes mode: "(w = wrapper \<and> run = chain_call env) \<or> (w = async_wrapper \<and> run = chain_acall env)"
      and prep: "prepare_call_args env cfg args kwargs = (t0, Inr (llmChain, chain_args))"
      and chain: "run llmChain chain_args = Inr result_data"
      and payload: "truthy (dict_get result_data ''function_call_info'')"
      and att: "try_block run env llmChain chain_args = (t1, Inr (result, rd))"
      and success: "snd (w env cfg args kwargs) = Inr r"
  shows "if is_functions_parser (ch_prompt llmChain) then
           r = Value result
           \<and> (\<exists>p info arguments.
                 output_parser (ch_prompt llmChain) = Some p
                 \<and> subscript (PDict result_data) ''function_call_info'' = Inr info
                 \<and> subscript info ''arguments'' = Inr arguments
                 \<and> parse p arguments = Inr result)
         else
           (\<exists>out raw info name arguments.
              r = OutputWithFunctionCall out
              \<and> fc_output out = result
              \<and> subscript (PDict result_data) (output_key env) = Inr raw
              \<and> (case output_parser (ch_prompt llmChain) of
                    None \<Rightarrow> result = raw
                  | Some p \<Rightarrow> if truthy raw then parse p raw = Inr result else result = raw)
              \<and> subscript (PDict result_data) ''text'' = Inr (fc_output_text out)
              \<and> subscript (PDict result_data) ''message'' = Inr (fc_output_message out)
              \<and> subscript (PDict result_data) ''function_call_info'' = Inr info
              \<and> subscript info ''name'' = Inr name \<and> fc_function_name out = Some name
              \<and> subscript info ''arguments'' = Inr arguments \<and> fc_function_args out = Some arguments)"
proof -
  from mode obtain complete
    where full: "(w = wrapper \<and> run = chain_call env \<and> complete = predict env)
           \<or> (w = async_wrapper \<and> run = chain_acall env \<and> complete = apredict env)"
    by auto
  have ret: "w env cfg args kwargs = (t0 @ t1, snd (package cfg kwargs chain_args (result, rd)))"
    by (rule either_wrapper_packages [OF full prep att])
  obtain raw where raw: "subscript (PDict result_data) (output_key env) = Inr raw"
    and pr: "snd (process_results llmChain result_data raw) = Inr (result, rd)"
    using try_block_success [OF chain att] by blast
  show ?thesis
  proof (cases "is_functions_parser (ch_prompt llmChain)")
    case True
    then obtain p where p: "output_parser (ch_prompt llmChain) = Some p" "is_functions_pydantic p"
      by (auto simp: is_functions_parser_def split: option.splits)
    from process_results_functions [OF p pr] ret success True p(1) show ?thesis
      by (auto simp: package_def ok_def)
  next
    case False
    from process_results_plain [OF False pr]
    have rd: "rd = result_data"
      and res: "case output_parser (ch_prompt llmChain) of
                  None \<Rightarrow> result = raw
                | Some p \<Rightarrow> if truthy raw then parse p raw = Inr result else result = raw"
      by simp_all
    from ret success rd truthy_dict_get_has_key [OF payload]
    obtain out where out: "r = OutputWithFunctionCall out"
      and gen: "generate_output_with_function_call result result_data (cfg_verbose cfg)
                  (if has_key kwargs ''callbacks'' then callbacks chain_args else PNone) = Inr out"
      by (auto simp: package_def lift_def seq_Inr_iff)
    from generate_with_payload [OF payload gen] out raw res False show ?thesis
      by auto
  qed
qed


lemmas ex_defs2 = functions_parser_def function_call_data_def function_call_env_def

text \<open>
  Claim C7 as stated fails: with the functions parser the call returns a plain value, and
  with the parser of yes and no the output of the packaged result comes from the text
  \<open>Yes\<close>, not from the arguments of the payload.
\<close>

theorem function_call_packaging_counterexample:
  "truthy (dict_get function_call_data ''function_call_info'')
   \<and> snd (wrapper (function_call_env functions_parser) default_cfg [] cats)
       = Inr (Value (PObj Instance [(''answer'', PInt 42)]))
   \<and> snd (wrapper (function_call_env boolean_parser) default_cfg [] cats)
       = Inr (OutputWithFunctionCall
            \<lparr>fc_output = PBool True, fc_output_text = PStr ''Yes'',
             fc_output_message = PStr ''AIMessage'',
             fc_function = Some (Plain_callable (PObj Function [(''name'', PStr ''Answer'')])),
             fc_function_async = None,
             fc_function_name = Some (PStr ''Answer''),
             fc_function_args = Some (PDict [(''answer'', PInt 42)]),
             fc_function_arguments = Some (PDict [(''answer'', PInt 42)])\<rparr>)"
  by (simp add: run_defs stage_defs wrap_defs ex_defs ex_defs2 Let_def)

text \<open>The functions parser, on the chain that answers with a function call.\<close>

theorem function_call_packaging_witness:
  "is_functions_parser (topic_template\<lparr>output_parser := Some functions_parser\<rparr>)
   \<and> wrapper (function_call_env functions_parser) default_cfg [] cats =
       ([CreateChain LLMDecoratorChainWithFunctionSupport,
         ChainCall \<lparr>inputs = cats @ [(''function_call'', PDict [(''name'', PStr ''Answer'')])],
                    return_only_outputs = True, callbacks = PList []\<rparr>,
         Parse (PDict [(''answer'', PInt 42)])],
        Inr (Value (PObj Instance [(''answer'', PInt 42)])))"
proof -
  let ?env = "function_call_env functions_parser"
  let ?tpl = "topic_template\<lparr>output_parser := Some functions_parser\<rparr>"
  let ?chain = "\<lparr>ch_class = LLMDecoratorChainWithFunctionSupport, ch_llm = default_llm,
      ch_prompt = ?tpl, ch_memory = PNone,
      ch_functions = PList [PDict [(''name'', PStr ''Answer'')]], ch_llm_selector = PNone,
      ch_capture_stream = PNone, ch_expected_gen_tokens = PNone,
      ch_llm_selector_rule_key = PNone\<rparr>"
  let ?args = "\<lparr>inputs = cats @ [(''function_call'', PDict [(''name'', PStr ''Answer'')])],
      return_only_outputs = True, callbacks = PList []\<rparr>"
  have mode: "(wrapper = wrapper \<and> chain_call ?env = chain_call ?env)
      \<or> (wrapper = async_wrapper \<and> chain_call ?env = chain_acall ?env)"
    by simp
  have prep: "prepare_call_args ?env default_cfg [] cats = ([CreateChain LLMDecoratorChainWithFunctionSupport], Inr (?chain, ?args))"
    by (simp add: run_defs stage_defs ex_defs ex_defs2 Let_def)
  have chain: "chain_call ?env ?chain ?args = Inr function_call_data"
    by (simp add: function_call_env_def)
  have payload: "truthy (dict_get function_call_data ''function_call_info'')"
    by (simp add: dict_get_def function_call_data_def)
  have att: "try_block (chain_call ?env) ?env ?chain ?args =
      ([ChainCall ?args, Parse (PDict [(''answer'', PInt 42)])],
       Inr (PObj Instance [(''answer'', PInt 42)],
            [(''text'', PStr ''Yes''), (''message'', PStr ''AIMessage'')]))"
    by (simp add: run_defs try_block_def process_results_def ex_defs ex_defs2
        dict_pop_def dict_del_def has_key_def keys_def)
  have run: "wrapper ?env default_cfg [] cats =
      ([CreateChain LLMDecoratorChainWithFunctionSupport, ChainCall ?args,
        Parse (PDict [(''answer'', PInt 42)])],
       Inr (Value (PObj Instance [(''answer'', PInt 42)])))"
    using wrapper_unfold [OF prep] att
    by (simp add: Let_def package_def ok_def has_key_def keys_def)
  then have success: "snd (wrapper ?env default_cfg [] cats)
      = Inr (Value (PObj Instance [(''answer'', PInt 42)]))"
    by simp
  from function_call_packaging [OF mode prep chain payload att success] run
  show ?thesis
    by (simp add: is_functions_parser_def functions_parser_def split: if_splits)
qed

section \<open>The two wrappers agree\<close>
















section \<open>Dictionaries\<close>

lemma keys_dict_del: "keys (dict_del k d) = filter (\<lambda>x. x \<noteq> k) (keys d)"
  by (induction d) (simp_all add: keys_def dict_del_def)

lemma keys_dict_set:
  "keys (dict_set k v d) = (if k \<in> set (keys d) then keys d else keys d @ [k])"
  by (induction d) (auto simp: keys_def)


lemma map_of_dict_del: "map_of (dict_del k d) = (map_of d)(k := None)"
  by (induction d) (auto simp: dict_del_def fun_eq_iff)

lemma dict_del_absent: "\<not> has_key d k \<Longrightarrow> dict_del k d = d"
  by (induction d) (auto simp: dict_del_def has_key_def keys_def)

lemma dict_get_dict_del: "k \<noteq> k' \<Longrightarrow> dict_get (dict_del k' d) k = dict_get d k"
  by (simp add: dict_get_def map_of_dict_del)

lemma set_keys_fold_dict_set:
  "set (keys (fold (\<lambda>kv d. dict_set (fst kv) (snd kv) d) d2 d1)) = set (keys d1) \<union> set (keys d2)"
proof (induction d2 arbitrary: d1)
  case Nil
  then show ?case by (simp add: keys_def)
next
  case (Cons kv d2)
  have "set (keys (dict_set (fst kv) (snd kv) d1)) = insert (fst kv) (set (keys d1))"
    by (auto simp: keys_dict_set)
  with Cons.IH [of "dict_set (fst kv) (snd kv) d1"] show ?case
    by (auto simp: keys_def)
qed

lemma set_keys_dict_merge: "set (keys (dict_merge d1 d2)) = set (keys d1) \<union> set (keys d2)"
  by (simp add: dict_merge_def set_keys_fold_dict_set)



section \<open>What argument assembly hands to the validation\<close>

lemma and_then_eq_Inr:
  "and_then m f = (t, Inr b) \<longleftrightarrow>
     (\<exists>t1 a t2. m = (t1, Inr a) \<and> f a = (t2, Inr b) \<and> t = t1 @ t2)"
  by (cases m; cases "snd m") (auto simp: and_then_def prod_eq_iff)

lemma lift_eq: "lift r = (t, x) \<longleftrightarrow> t = [] \<and> r = x"
  by (auto simp: lift_def)

lemma ok_eq: "ok a = (t, x) \<longleftrightarrow> t = [] \<and> x = Inr a"
  by (auto simp: ok_def)

lemma take_capture_stream_kwargs:
  "take_capture_stream env cfg kwargs = Inr (cs, kw0) \<Longrightarrow> kw0 = dict_del ''capture_stream'' kwargs"
  by (auto simp: take_capture_stream_def Let_def has_key_map_of dict_del_absent
      split: option.splits if_splits)

lemma select_llm_kwargs:
  "select_llm env cfg cs kw0 = (m, sel, Some rk, kw1) \<Longrightarrow>
     \<not> truthy (cfg_llm cfg)
     \<and> kw1 = (if truthy (dict_get kw0 ''llm_selector_rule_key'')
              then dict_del ''llm_selector_rule_key'' kw0 else kw0)"
  by (auto simp: select_llm_def Let_def dict_get_def split: option.splits if_splits)

lemma new_chain_eq_Inr:
  "new_chain cfg cls m tpl mem fns sel cs rko = (t, Inr c) \<Longrightarrow>
     rko \<noteq> None \<and> t = [CreateChain cls] \<and> ch_prompt c = tpl \<and> ch_class c = cls"
  by (auto simp: new_chain_def fail_def call_def split: option.splits)

lemma create_chain_eq_Inr:
  assumes "create_chain cfg m tpl mem fns sel cs rko kw = (t, Inr (c, kw5))"
  shows "rko \<noteq> None \<and> t = [CreateChain (ch_class c)] \<and> ch_prompt c = tpl
         \<and> kw5 = (if \<not> truthy fns \<and> is_functions_parser tpl
                   then dict_set ''function_call''
                          (case output_parser tpl of Some p \<Rightarrow> build_llm_function p | None \<Rightarrow> PNone) kw
                   else kw)"
  using assms
  by (auto simp: create_chain_def Let_def and_then_eq_Inr ok_eq dest!: new_chain_eq_Inr
      split: if_splits)

lemma pop_or_None_eq: "pop_or_None name kw = (dict_get kw name, dict_del name kw)"
  by (auto simp: pop_or_None_def dict_get_def has_key_map_of dict_del_absent split: option.splits)

lemma take_callbacks_kwargs:
  "take_callbacks cs kw = Inr (cbs, kw2) \<Longrightarrow> kw2 = dict_del ''callbacks'' kw"
  by (auto simp: take_callbacks_def has_key_map_of dict_del_absent
      split: option.splits if_splits pyval.splits)


lemma bind_chain_eq_Inr:
  assumes run: "bind_chain env cfg args cs kw0 = (t, Inr fr)"
      and tpl: "from_func env = Inr tpl"
      and kw1: "kw1 = (if truthy (dict_get kw0 ''llm_selector_rule_key'')
                       then dict_del ''llm_selector_rule_key'' kw0 else kw0)"
      and kwm: "kwm = apply_defaults tpl kw1"
      and kw4: "kw4 = dict_del ''functions'' (dict_del ''memory'' (dict_del ''callbacks'' kwm))"
  shows "\<not> truthy (cfg_llm cfg)"
    and "input_variables_source args = Inr (fr_source fr)"
    and "ch_prompt (fr_chain fr) = tpl"
    and "t = [CreateChain (ch_class (fr_chain fr))]"
    and "take_callbacks cs kwm = Inr (fr_callbacks fr, dict_del ''callbacks'' kwm)"
    and "fr_memory fr = dict_get kwm ''memory''"
    and "fr_kwargs fr =
           (if \<not> truthy (dict_get kwm ''functions'') \<and> is_functions_parser tpl
            then dict_set ''function_call''
                   (case output_parser tpl of Some p \<Rightarrow> build_llm_function p | None \<Rightarrow> PNone) kw4
            else kw4)"
proof -
  obtain m sel rko kw1' where sel: "select_llm env cfg cs kw0 = (m, sel, rko, kw1')"
    by (cases "select_llm env cfg cs kw0") auto
  from run sel tpl obtain source cbs kw2 c kw5
    where src: "input_variables_source args = Inr source"
      and cb: "take_callbacks cs (apply_defaults tpl kw1') = Inr (cbs, kw2)"
      and cc: "create_chain cfg m tpl (dict_get kw2 ''memory'')
                 (dict_get (dict_del ''memory'' kw2) ''functions'') sel cs rko
                 (dict_del ''functions'' (dict_del ''memory'' kw2)) = (t, Inr (c, kw5))"
      and fr: "fr = \<lparr>fr_chain = c, fr_kwargs = kw5, fr_callbacks = cbs,
                     fr_memory = dict_get kw2 ''memory'', fr_source = source\<rparr>"
    by (auto simp: bind_chain_def and_then_eq_Inr lift_eq ok_eq pop_or_None_eq split: prod.splits)
  from create_chain_eq_Inr [OF cc] have rko: "rko \<noteq> None"
    and t: "t = [CreateChain (ch_class c)]" and prompt: "ch_prompt c = tpl"
    and kw5: "kw5 = (if \<not> truthy (dict_get (dict_del ''memory'' kw2) ''functions'')
                        \<and> is_functions_parser tpl
                   then dict_set ''function_call''
                          (case output_parser tpl of Some p \<Rightarrow> build_llm_function p | None \<Rightarrow> PNone)
                          (dict_del ''functions'' (dict_del ''memory'' kw2))
                   else dict_del ''functions'' (dict_del ''memory'' kw2))"
    by simp_all
  from rko obtain rk where "rko = Some rk" by auto
  with sel select_llm_kwargs [of env cfg cs kw0 m sel rk kw1'] kw1
  have llm: "\<not> truthy (cfg_llm cfg)" and kw1': "kw1' = kw1"
    by simp_all
  from cb kw1' kwm have cb': "take_callbacks cs kwm = Inr (cbs, kw2)" by simp
  from take_callbacks_kwargs [OF cb'] have kw2: "kw2 = dict_del ''callbacks'' kwm" .
  show "\<not> truthy (cfg_llm cfg)" by (rule llm)
  show "input_variables_source args = Inr (fr_source fr)" using src fr by simp
  show "ch_prompt (fr_chain fr) = tpl" using prompt fr by simp
  show "t = [CreateChain (ch_class (fr_chain fr))]" using t fr by simp
  show "take_callbacks cs kwm = Inr (fr_callbacks fr, dict_del ''callbacks'' kwm)"
    using cb' kw2 fr by simp
  show "fr_memory fr = dict_get kwm ''memory''"
    using fr kw2 by (simp add: dict_get_dict_del)
  show "fr_kwargs fr =
           (if \<not> truthy (dict_get kwm ''functions'') \<and> is_functions_parser tpl
            then dict_set ''function_call''
                   (case output_parser tpl of Some p \<Rightarrow> build_llm_function p | None \<Rightarrow> PNone) kw4
            else kw4)"
    using fr kw5 kw2 kw4 by (simp add: dict_get_dict_del)
qed

lemma gather_eq_Inr:
  assumes "gather env cfg args kwargs = (t, Inr fr)"
  shows "\<exists>cs. take_capture_stream env cfg kwargs = Inr (cs, dict_del ''capture_stream'' kwargs)
              \<and> bind_chain env cfg args cs (dict_del ''capture_stream'' kwargs) = (t, Inr fr)"
proof -
  from assms obtain cs kw0 where tc: "take_capture_stream env cfg kwargs = Inr (cs, kw0)"
    and bc: "bind_chain env cfg args cs kw0 = (t, Inr fr)"
    by (auto simp: gather_def and_then_eq_Inr lift_eq)
  from take_capture_stream_kwargs [OF tc] tc bc show ?thesis by auto
qed

lemma gather_template:
  assumes "gather env cfg args kwargs = (t, Inr fr)"
  shows "from_func env = Inr (ch_prompt (fr_chain fr))"
proof -
  from gather_eq_Inr [OF assms] obtain cs
    where bc: "bind_chain env cfg args cs (dict_del ''capture_stream'' kwargs) = (t, Inr fr)"
    by blast
  then obtain tpl where tpl: "from_func env = Inr tpl"
    by (auto simp: bind_chain_def and_then_eq_Inr lift_eq split: prod.splits)
  from bind_chain_eq_Inr(3) [OF bc tpl refl refl refl] tpl show ?thesis by simp
qed

text \<open>The keywords the validation sees, in terms of the keywords of the call.\<close>

lemma gather_kwargs:
  assumes run: "gather env cfg args kwargs = (t, Inr fr)"
      and tpl: "from_func env = Inr tpl"
      and kw1: "kw1 = (if truthy (dict_get kwargs ''llm_selector_rule_key'')
                       then dict_del ''llm_selector_rule_key'' (dict_del ''capture_stream'' kwargs)
                       else dict_del ''capture_stream'' kwargs)"
      and kwm: "kwm = apply_defaults tpl kw1"
      and kw4: "kw4 = dict_del ''functions'' (dict_del ''memory'' (dict_del ''callbacks'' kwm))"
  shows "\<not> truthy (cfg_llm cfg)"
    and "input_variables_source args = Inr (fr_source fr)"
    and "ch_prompt (fr_chain fr) = tpl"
    and "t = [CreateChain (ch_class (fr_chain fr))]"
    and "fr_memory fr = dict_get kwm ''memory''"
    and "fr_kwargs fr =
           (if \<not> truthy (dict_get kwm ''functions'') \<and> is_functions_parser tpl
            then dict_set ''function_call''
                   (case output_parser tpl of Some p \<Rightarrow> build_llm_function p | None \<Rightarrow> PNone) kw4
            else kw4)"
proof -
  from gather_eq_Inr [OF run] obtain cs
    where bc: "bind_chain env cfg args cs (dict_del ''capture_stream'' kwargs) = (t, Inr fr)"
    by blast
  have kw1': "kw1 = (if truthy (dict_get (dict_del ''capture_stream'' kwargs) ''llm_selector_rule_key'')
                     then dict_del ''llm_selector_rule_key'' (dict_del ''capture_stream'' kwargs)
                     else dict_del ''capture_stream'' kwargs)"
    using kw1 by (simp add: dict_get_dict_del)
  note facts = bind_chain_eq_Inr [OF bc tpl kw1' kwm kw4]
  show "\<not> truthy (cfg_llm cfg)" by (rule facts(1))
  show "input_variables_source args = Inr (fr_source fr)" by (rule facts(2))
  show "ch_prompt (fr_chain fr) = tpl" by (rule facts(3))
  show "t = [CreateChain (ch_class (fr_chain fr))]" by (rule facts(4))
  show "fr_memory fr = dict_get kwm ''memory''" by (rule facts(6))
  show "fr_kwargs fr =
           (if \<not> truthy (dict_get kwm ''functions'') \<and> is_functions_parser tpl
            then dict_set ''function_call''
                   (case output_parser tpl of Some p \<Rightarrow> build_llm_function p | None \<Rightarrow> PNone) kw4
            else kw4)"
    by (rule facts(7))
qed


section \<open>The validation\<close>

lemma fill_from_source_error:
  "fill_from_source obj ms kw = Inl e \<Longrightarrow> \<exists>k. e = TypeError_missing_attr k"
  by (induction ms arbitrary: kw) (auto split: option.splits)

lemma resolve_missing_error:
  "resolve_missing cfg tpl mem src kw = Inl e \<Longrightarrow> e \<noteq> TypeError_unexpected ks valid"
  by (auto simp: resolve_missing_def Let_def exempt_memory_key_def
      dest!: fill_from_source_error split: sum.splits if_splits option.splits pyval.splits)

lemma validate_unexpected:
  "validate cfg fr = Inl (TypeError_unexpected ks valid) \<longleftrightarrow>
     unexpected_inputs (ch_prompt (fr_chain fr)) (fr_kwargs fr) \<noteq> []
     \<and> ks = unexpected_inputs (ch_prompt (fr_chain fr)) (fr_kwargs fr)
     \<and> valid = input_variables (ch_prompt (fr_chain fr))"
proof (cases "unexpected_inputs (ch_prompt (fr_chain fr)) (fr_kwargs fr) = []")
  case False
  then show ?thesis
    by (auto simp: validate_def check_unexpected_def seq_def)
next
  case True
  have "validate cfg fr \<noteq> Inl (TypeError_unexpected ks valid)"
  proof
    assume v: "validate cfg fr = Inl (TypeError_unexpected ks valid)"
    with True have "resolve_missing cfg (ch_prompt (fr_chain fr)) (fr_memory fr) (fr_source fr)
        (fr_kwargs fr) = Inl (TypeError_unexpected ks valid)"
      by (auto simp: validate_def check_unexpected_def seq_def split: sum.splits)
    with resolve_missing_error show False by blast
  qed
  with True show ?thesis by simp
qed

lemma prepare_after_gather:
  "gather env cfg args kwargs = (t, Inr fr) \<Longrightarrow>
   prepare_call_args env cfg args kwargs = (t, validate cfg fr)"
  by (simp add: prepare_call_args_def and_then_def lift_def)

lemma set_keys_dict_del: "set (keys (dict_del k d)) = set (keys d) - {k}"
  by (auto simp: keys_dict_del)


lemma set_keys_apply_defaults:
  "set (keys (apply_defaults tpl kw)) = set (keys (default_values tpl)) \<union> set (keys kw)"
proof (cases "default_values tpl = []")
  case True
  then show ?thesis by (simp add: apply_defaults_def keys_def)
next
  case False
  then show ?thesis by (simp add: apply_defaults_def set_keys_dict_merge)
qed


section \<open>The reserved keywords\<close>




section \<open>Keywords the template does not know\<close>

lemma unexpected_inputs_gathered:
  assumes kw4: "kw4 = dict_del ''functions'' (dict_del ''memory'' (dict_del ''callbacks'' kwm))"
      and kw5: "kw5 = (if b then dict_set ''function_call'' f kw4 else kw4)"
  shows "unexpected_inputs tpl kw5 =
           filter (\<lambda>key. key \<notin> set (input_variables tpl)
                          \<and> key \<notin> set [''stop'', ''callbacks'', ''function_call'', ''memory'', ''functions''])
             (keys kwm)"
proof -
  have "unexpected_inputs tpl kw5 = unexpected_inputs tpl kw4"
    unfolding kw5
    by (simp add: unexpected_inputs_def other_supported_kwargs_def keys_dict_set)
  also have "\<dots> = filter (\<lambda>key. key \<notin> set (input_variables tpl)
                          \<and> key \<notin> set [''stop'', ''callbacks'', ''function_call'', ''memory'', ''functions''])
             (keys kwm)"
    unfolding kw4 unexpected_inputs_def other_supported_kwargs_def keys_dict_del filter_filter
    by (rule filter_cong) auto
  finally show ?thesis .
qed

text \<open>
  Claim C6, amended. Argument assembly has reached the validation, and the call passes a
  keyword that is neither an input of the template nor one of \<^verbatim>\<open>capture_stream\<close>,
  \<^verbatim>\<open>callbacks\<close>, \<^verbatim>\<open>memory\<close>, \<^verbatim>\<open>functions\<close>, \<^verbatim>\<open>llm_selector_rule_key\<close>, \<^verbatim>\<open>stop\<close>
  and \<^verbatim>\<open>function_call\<close>. Then the call fails with the \<^verbatim>\<open>TypeError\<close> of line 232, which
  carries the inputs of the template and lists, in their order, the keywords (after
  \<^verbatim>\<open>capture_stream\<close> and a truthy \<^verbatim>\<open>llm_selector_rule_key\<close> were taken out and the
  default values were merged in) that are neither inputs of the template nor one of
  \<^verbatim>\<open>stop\<close>, \<^verbatim>\<open>callbacks\<close>, \<^verbatim>\<open>function_call\<close>, \<^verbatim>\<open>memory\<close>, \<^verbatim>\<open>functions\<close>; the keyword
  is in the list.
\<close>

theorem unexpected_keyword_rejected:
  assumes run: "gather env cfg args kwargs = (t, Inr fr)" and tpl: "from_func env = Inr tpl"
      and k: "has_key kwargs k" "k \<notin> set (input_variables tpl)"
             "k \<notin> set [''capture_stream'', ''callbacks'', ''memory'', ''functions'',
                        ''llm_selector_rule_key'', ''stop'', ''function_call'']"
      and kw1: "kw1 = (if truthy (dict_get kwargs ''llm_selector_rule_key'')
                       then dict_del ''llm_selector_rule_key'' (dict_del ''capture_stream'' kwargs)
                       else dict_del ''capture_stream'' kwargs)"
      and off: "offending =
                  filter (\<lambda>key. key \<notin> set (input_variables tpl)
                                 \<and> key \<notin> set [''stop'', ''callbacks'', ''function_call'', ''memory'', ''functions''])
                    (keys (apply_defaults tpl kw1))"
  shows "prepare_call_args env cfg args kwargs
           = (t, Inl (TypeError_unexpected offending (input_variables tpl)))
         \<and> k \<in> set offending"
proof -
  note facts = gather_kwargs [OF run tpl kw1 refl refl]
  have un: "unexpected_inputs tpl (fr_kwargs fr) = offending"
    unfolding off by (rule unexpected_inputs_gathered [OF refl facts(6)])
  from k have "k \<in> set (keys kw1)"
    unfolding kw1 by (auto simp: set_keys_dict_del has_key_def)
  with k have mem: "k \<in> set offending"
    unfolding off by (auto simp: set_keys_apply_defaults)
  then have "offending \<noteq> []" by auto
  with un facts(3) have "validate cfg fr = Inl (TypeError_unexpected offending (input_variables tpl))"
    by (simp add: validate_unexpected)
  with prepare_after_gather [OF run] mem show ?thesis by simp
qed

text \<open>Two unknown keywords around a valid one and \<^verbatim>\<open>stop\<close>.\<close>

theorem unexpected_keyword_rejected_witness:
  "prepare_call_args stub_env default_cfg []
     (cats @ [(''style'', PStr ''formal''), (''stop'', PList [PStr ''.'']), (''tone'', PStr ''dry'')])
   = ([CreateChain LLMDecoratorChain], Inl (TypeError_unexpected [''style'', ''tone''] [''topic'']))"
proof -
  let ?kw = "cats @ [(''style'', PStr ''formal''), (''stop'', PList [PStr ''.'']), (''tone'', PStr ''dry'')]"
  let ?fr = "\<lparr>fr_chain = \<lparr>ch_class = LLMDecoratorChain, ch_llm = default_llm,
                 ch_prompt = topic_template, ch_memory = PNone, ch_functions = PNone,
                 ch_llm_selector = PNone, ch_capture_stream = PNone,
                 ch_expected_gen_tokens = PNone, ch_llm_selector_rule_key = PNone\<rparr>,
               fr_kwargs = ?kw, fr_callbacks = PList [],
               fr_memory = PNone, fr_source = None\<rparr>"
  have run: "gather stub_env default_cfg [] ?kw = ([CreateChain LLMDecoratorChain], Inr ?fr)"
    by (simp add: run_defs stage_defs ex_defs)
  have tpl: "from_func stub_env = Inr topic_template"
    by (simp add: stub_env_def)
  have k: "has_key ?kw ''style''" "''style'' \<notin> set (input_variables topic_template)"
    "''style'' \<notin> set [''capture_stream'', ''callbacks'', ''memory'', ''functions'',
                        ''llm_selector_rule_key'', ''stop'', ''function_call'']"
    by (simp_all add: has_key_def keys_def cats_def topic_template_def)
  from unexpected_keyword_rejected [OF run tpl k refl refl] show ?thesis
    by (simp add: stage_defs ex_defs)
qed

text \<open>
  Claim C6 as stated fails: \<^verbatim>\<open>function_call\<close> is neither an input of the template nor
  one of the six reserved names, and the call passes.
\<close>

theorem unexpected_keyword_rejected_counterexample:
  "prepare_call_args stub_env default_cfg [] (cats @ [(''function_call'', PStr ''auto'')])
   = ([CreateChain LLMDecoratorChain],
      Inr (\<lparr>ch_class = LLMDecoratorChain, ch_llm = default_llm,
             ch_prompt = topic_template, ch_memory = PNone, ch_functions = PNone,
             ch_llm_selector = PNone, ch_capture_stream = PNone,
             ch_expected_gen_tokens = PNone, ch_llm_selector_rule_key = PNone\<rparr>,
            \<lparr>inputs = cats @ [(''function_call'', PStr ''auto'')], return_only_outputs = True,
             callbacks = PList []\<rparr>))
   \<and> ''function_call'' \<notin> set (input_variables topic_template)
   \<and> ''function_call'' \<notin> set [''capture_stream'', ''callbacks'', ''memory'', ''functions'',
                                ''llm_selector_rule_key'', ''stop'']"
  by (simp add: run_defs stage_defs ex_defs)

section \<open>Missing inputs\<close>









section \<open>Supplying what the defaults leave open\<close>









section \<open>A model fixed at decoration\<close>

text \<open>
  With a model fixed at decoration, lines 169 to 177 leave \<^verbatim>\<open>llm_selector_rule_key\<close>
  unbound, and argument assembly never reaches the validation.
\<close>

lemma fixed_model_never_assembles:
  assumes "truthy (cfg_llm cfg)"
  shows "snd (gather env cfg args kwargs) \<noteq> Inr fr"
proof
  assume "snd (gather env cfg args kwargs) = Inr fr"
  then have run: "gather env cfg args kwargs = (fst (gather env cfg args kwargs), Inr fr)"
    by (simp add: prod_eq_iff)
  from gather_kwargs(1) [OF run gather_template [OF run] refl refl refl] assms
  show False by simp
qed

lemma fixed_model_unbound_rule_key:
  "prepare_call_args stub_env (default_cfg\<lparr>cfg_llm := default_llm\<rparr>) [] cats
   = ([], Inl (UnboundLocalError ''llm_selector_rule_key''))"
  by (simp add: run_defs stage_defs ex_defs)

end
